theory Spec2Isabelle
  imports Main "HOL-Library.Sublist" "HOL-Library.AList"
begin

section \<open>Python values, strings and dictionaries\<close>

text \<open>
  The exporter keeps every intermediate entity in an untyped \<^verbatim>\<open>dict\<close>. The values that
  occur in those dictionaries are strings, booleans, integers and \<^verbatim>\<open>None\<close>.
\<close>

datatype pyval = PyNone | PyBool bool | PyInt int | PyStr string

text \<open>
  A \<^verbatim>\<open>dict\<close> keeps insertion order, and the emitters take their column order from it, so
  a dictionary is an association list. \<^verbatim>\<open>d[k] = v\<close> is \<^const>\<open>AList.update\<close>: an existing
  key keeps its position, a new key goes to the end.
\<close>

type_synonym pydict = "(string \<times> pyval) list"

text \<open>
  Exceptions are values. \<open>ApiError\<close> stands for anything an SDK client raises (its
  message is the environment's), \<open>OSError\<close> for a failed \<^verbatim>\<open>open\<close>, \<open>ValueError\<close> for the
  \<^verbatim>\<open>csv.DictWriter\<close> complaint about fields outside \<^verbatim>\<open>fieldnames\<close>,
  \<open>IllegalCharacterError\<close> for the spreadsheet library's refusal of a cell.
\<close>

datatype exn =
    KeyError string
  | ValueError "string list"
  | AttributeError string
  | OSError string
  | ApiError string
  | IllegalCharacterError string

definition truthy :: "pyval \<Rightarrow> bool" where
  "truthy v = (case v of PyNone \<Rightarrow> False | PyBool b \<Rightarrow> b | PyInt i \<Rightarrow> i \<noteq> 0 | PyStr s \<Rightarrow> s \<noteq> [])"

text \<open>\<^verbatim>\<open>x or d\<close>\<close>

definition py_or :: "pyval \<Rightarrow> pyval \<Rightarrow> pyval" where
  "py_or x d = (if truthy x then x else d)"

text \<open>Decimal digits of a natural number, as \<^verbatim>\<open>str\<close> and f-strings print them.\<close>

fun str_nat :: "nat \<Rightarrow> string" where
  "str_nat n = (if n < 10 then [char_of (48 + n)]
                else str_nat (n div 10) @ [char_of (48 + n mod 10)])"

declare str_nat.simps [simp del]

definition str_int :: "int \<Rightarrow> string" where
  "str_int i = (if i < 0 then CHR ''-'' # str_nat (nat (- i)) else str_nat (nat i))"

text \<open>\<^verbatim>\<open>str(v)\<close>, also what an f-string puts in place of \<^verbatim>\<open>{v}\<close>.\<close>

definition py_str :: "pyval \<Rightarrow> string" where
  "py_str v = (case v of
       PyNone \<Rightarrow> ''None''
     | PyBool b \<Rightarrow> (if b then ''True'' else ''False'')
     | PyInt i \<Rightarrow> str_int i
     | PyStr s \<Rightarrow> s)"

text \<open>\<^verbatim>\<open>sub in s\<close> on strings is \<^const>\<open>sublist\<close>: a contiguous occurrence.\<close>

text \<open>
  \<^verbatim>\<open>s.split(sep)\<close> for a separator: scan from the left, cut at each occurrence, continue
  after it. \<open>cur\<close> holds the current piece, reversed. Python raises on an empty
  separator; the source only ever splits on non-empty literals, and the model never cuts
  on \<open>[]\<close>.
\<close>

function split_from :: "string \<Rightarrow> string \<Rightarrow> string \<Rightarrow> string list" where
  "split_from sep cur [] = [rev cur]"
| "split_from sep cur (c # cs) =
     (if sep \<noteq> [] \<and> prefix sep (c # cs)
      then rev cur # split_from sep [] (drop (length sep) (c # cs))
      else split_from sep (c # cur) cs)"
  by pat_completeness auto
termination
  by (relation "measure (\<lambda>(sep, cur, s). length s)") auto

definition py_split :: "string \<Rightarrow> string \<Rightarrow> string list" where
  "py_split s sep = split_from sep [] s"

text \<open>\<^verbatim>\<open>sep.join(xs)\<close>\<close>

fun py_join :: "string \<Rightarrow> string list \<Rightarrow> string" where
  "py_join sep [] = []"
| "py_join sep [x] = x"
| "py_join sep (x # y # ys) = x @ sep @ py_join sep (y # ys)"

text \<open>\<^verbatim>\<open>s.replace(old, new)\<close> replaces every occurrence, left to right.\<close>

definition py_replace :: "string \<Rightarrow> string \<Rightarrow> string \<Rightarrow> string" where
  "py_replace s old new = py_join new (py_split s old)"

text \<open>\<^verbatim>\<open>s.strip()\<close>: the whitespace characters of \<^verbatim>\<open>str.isspace\<close> below code point 256.\<close>

definition is_space :: "char \<Rightarrow> bool" where
  "is_space c = (let n = (of_char c :: nat) in
      (9 \<le> n \<and> n \<le> 13) \<or> (28 \<le> n \<and> n \<le> 32) \<or> n = 133 \<or> n = 160)"

definition py_strip :: "string \<Rightarrow> string" where
  "py_strip s = rev (dropWhile is_space (rev (dropWhile is_space s)))"

text \<open>\<^verbatim>\<open>xs[:top]\<close> with Python's meaning of a negative bound.\<close>

definition py_take :: "int \<Rightarrow> 'a list \<Rightarrow> 'a list" where
  "py_take n xs = (if 0 \<le> n then take (nat n) xs
                   else take (length xs - nat (- n)) xs)"

text \<open>Dictionary access: \<^verbatim>\<open>d[k]\<close> raises \<^verbatim>\<open>KeyError\<close>, \<^verbatim>\<open>d.get(k, v)\<close> does not.\<close>

definition getitem :: "pydict \<Rightarrow> string \<Rightarrow> exn + pyval" where
  "getitem d k = (case map_of d k of None \<Rightarrow> Inl (KeyError k) | Some v \<Rightarrow> Inr v)"

definition dict_get :: "pydict \<Rightarrow> string \<Rightarrow> pyval \<Rightarrow> pyval" where
  "dict_get d k dflt = (case map_of d k of None \<Rightarrow> dflt | Some v \<Rightarrow> v)"

definition has_key :: "pydict \<Rightarrow> string \<Rightarrow> bool" where
  "has_key d k = (map_of d k \<noteq> None)"

definition keys :: "pydict \<Rightarrow> string list" where
  "keys d = map fst d"

text \<open>\<^verbatim>\<open>d.update(e)\<close>\<close>

definition dict_update :: "pydict \<Rightarrow> pydict \<Rightarrow> pydict" where
  "dict_update d e = fold (\<lambda>(k, v) acc. AList.update k v acc) e d"

section \<open>The world outside the process\<close>

text \<open>
  Objects the SDK clients hand back. A field the code only passes on, prints or tests for
  truth is a \<^typ>\<open>pyval\<close>. \<open>ra_scope\<close> is the scope the assignment was made at, as the
  provider reports it; \<^verbatim>\<open>get_role_assignments\<close> never reads it. \<open>ra_created_on\<close> is the
  \<^verbatim>\<open>isoformat()\<close> of the timestamp, when there is one; \<open>so_state\<close> is the state's
  \<^verbatim>\<open>value\<close>, or its \<^verbatim>\<open>str\<close>; \<open>rd_permissions\<close> is the number of permissions (0 for none).
\<close>

record mg_obj =
  mgo_id :: pyval
  mgo_name :: pyval
  mgo_display_name :: pyval
  mgo_type :: pyval

record sub_obj =
  so_id :: pyval
  so_subscription_id :: pyval
  so_display_name :: pyval
  so_state :: pyval

record rg_obj =
  rgo_id :: pyval
  rgo_name :: pyval
  rgo_location :: pyval

record role_def_obj =
  rd_role_name :: pyval
  rd_id :: pyval
  rd_role_type :: pyval
  rd_description :: pyval
  rd_permissions :: nat
  rd_assignable_scopes :: "string list"

record role_assignment_obj =
  ra_scope :: string
  ra_role_definition_id :: pyval
  ra_id :: pyval
  ra_principal_id :: pyval
  ra_principal_type :: pyval
  ra_additional_properties :: "pydict option"
  ra_condition :: pyval
  ra_condition_version :: pyval
  ra_created_on :: "string option"

text \<open>
  A directory member: \<open>mo_additional_data = None\<close> is a member without that mapping
  (reading it raises), \<open>mo_user_principal_name = None\<close> a member object without the
  attribute.
\<close>

record member_obj =
  mo_id :: pyval
  mo_additional_data :: "pydict option"
  mo_display_name :: pyval
  mo_user_principal_name :: "pyval option"

datatype membership_mode = Direct | Transitive

text \<open>
  The environment of a run: what each external call answers (\<open>Inl\<close> when it raises),
  which optional libraries were importable, and which paths cannot be opened for writing.
  \<open>worksheet_append\<close> is what \<^verbatim>\<open>ws.append\<close> of the spreadsheet library raises for a row of
  cells, if anything. The SDK clients, the spreadsheet library, \<^verbatim>\<open>pathlib\<close> and the clock
  are not part of the repository and enter as these parameters.
\<close>

record env =
  HAS_OPENPYXL :: bool
  HAS_GRAPH :: bool
  openpyxl_workbook :: bool
  worksheet_append :: "pyval list \<Rightarrow> exn option"
  which_pwsh :: bool
  bootstrap_returncode :: int
  default_credential :: "exn option"
  cli_credential :: "exn option"
  management_groups_list :: "exn + mg_obj list"
  subscriptions_list :: "exn + sub_obj list"
  resource_groups_list :: "pyval \<Rightarrow> exn + rg_obj list"
  role_definitions_list :: "string \<Rightarrow> exn + role_def_obj list"
  role_assignments_list_for_scope :: "string \<Rightarrow> bool \<Rightarrow> exn + role_assignment_obj list"
  graph_client :: "exn option"
  graph_user :: "pyval \<Rightarrow> exn + (pyval \<times> pyval)"
  graph_application :: "pyval \<Rightarrow> exn + (pyval \<times> pyval)"
  graph_group_members :: "membership_mode \<Rightarrow> pyval \<Rightarrow> exn + member_obj list"
  open_fails :: "string \<Rightarrow> bool"
  utc_timestamp :: string
  path_str :: "string \<Rightarrow> string"
  path_join :: "string \<Rightarrow> string \<Rightarrow> string"
  summary_path :: string

text \<open>The external calls a run attempts, in order; each entry stands for the client call
  together with the construction of its client.\<close>

datatype call =
    TryCredential string
  | ListManagementGroups
  | ListSubscriptions
  | ListResourceGroups pyval
  | ListRoleDefinitions string
  | ListRoleAssignments string bool
  | GraphGetUser pyval
  | GraphGetApplication pyval
  | GraphGroupMembers membership_mode pyval
  | RunBootstrap

datatype level = WARNING | ERROR

text \<open>The run summary \<^verbatim>\<open>main\<close> hands to \<^verbatim>\<open>write_summary\<close>, without its clock readings,
  run id and argument dump.\<close>

record summary =
  scopes_processed :: "nat \<times> nat \<times> nat"
  scopes_skipped :: "string list"
  roles_count :: nat
  assignments_count :: nat
  warnings :: "string list"
  errors :: "(string \<times> exn) list"
  success :: bool
  credential_type :: string

text \<open>
  What the emitters leave in a file: the header and the rows of cells for CSV and XLSX,
  the strings written one after the other for Markdown, the rows for a JSON array; the
  index document (artifact paths, the two row counts, the rows per subscription) and the
  summary document.
\<close>

datatype file_content =
    CsvFile "string list" "pyval list list"
  | XlsxFile "string list" "pyval list list"
  | TextFile "string list"
  | JsonRows "pydict list"
  | IndexJson "(string \<times> string option) list" "nat \<times> nat" "(pyval \<times> nat) list"
  | SummaryJson summary

text \<open>
  The state a run changes: the trace of external calls, the log records of level WARNING
  and ERROR (the text before the exception, and the exception the message ends with),
  the files written, the directories created, and the module-level \<^verbatim>\<open>principal_cache\<close>.
  INFO and DEBUG records only narrate and are left out, and so are the lines the script
  prints to the console and the log files \<^verbatim>\<open>init_logging\<close> opens: \<open>w_log\<close> stands
  for them. A failure of the environment that the script does not catch (a directory
  that cannot be created) ends the process outside of what is modelled.
\<close>

record world =
  w_calls :: "call list"
  w_log :: "(level \<times> string \<times> exn option) list"
  w_files :: "(string \<times> file_content) list"
  w_dirs :: "string list"
  principal_cache :: "(pyval \<times> (pyval \<times> pyval)) list"

definition did :: "call \<Rightarrow> world \<Rightarrow> world" where
  "did c w = w\<lparr>w_calls := w_calls w @ [c]\<rparr>"

definition logged :: "level \<Rightarrow> string \<Rightarrow> exn option \<Rightarrow> world \<Rightarrow> world" where
  "logged l msg e w = w\<lparr>w_log := w_log w @ [(l, msg, e)]\<rparr>"

section \<open>Fetching role assignments\<close>

text \<open>
  The scope type and the identifiers \<^verbatim>\<open>get_role_assignments\<close> derives from the queried
  scope string, for every assignment of that scope alike.
\<close>

definition classify_scope :: "string \<Rightarrow> string \<times> string \<times> string" where
  "classify_scope scope =
    (if sublist ''/providers/Microsoft.Management/managementGroups/'' scope
     then (''ManagementGroup'', '''', '''')
     else if sublist ''/subscriptions/'' scope \<and> sublist ''/resourceGroups/'' scope
     then (let parts = py_split scope ''/subscriptions/'' in
           if length parts > 1
           then (let sub_part = py_split (parts ! 1) ''/resourceGroups/'' in
                 (''ResourceGroup'', sub_part ! 0,
                  if length sub_part > 1 then sub_part ! 1 else ''''))
           else (''ResourceGroup'', '''', ''''))
     else if sublist ''/subscriptions/'' scope
     then (let parts = py_split scope ''/subscriptions/'' in
           if length parts > 1
           then (''Subscription'', py_split (parts ! 1) ''/'' ! 0, '''')
           else (''Subscription'', '''', ''''))
     else (''Unknown'', '''', ''''))"

definition assignment_row :: "string \<Rightarrow> role_assignment_obj \<Rightarrow> pydict" where
  "assignment_row scope a =
    (case classify_scope scope of (scope_type, subscription_id, resource_group) \<Rightarrow>
     [(''scope'', PyStr scope),
      (''scopeType'', PyStr scope_type),
      (''subscriptionId'', PyStr subscription_id),
      (''resourceGroup'', PyStr resource_group),
      (''roleDefinitionId'', ra_role_definition_id a),
      (''roleDefinitionName'', PyStr ''''),
      (''assignmentId'', ra_id a),
      (''principalId'', ra_principal_id a),
      (''principalType'',
         if truthy (ra_principal_type a) then PyStr (py_str (ra_principal_type a))
         else PyStr ''Unknown''),
      (''principalDisplayName'', PyStr ''''),
      (''principalUPNOrAppId'', PyStr ''''),
      (''inherited'',
         case ra_additional_properties a of
           None \<Rightarrow> PyBool False
         | Some props \<Rightarrow> if props = [] then PyBool False
                         else dict_get props ''inherited'' (PyBool False)),
      (''condition'', py_or (ra_condition a) (PyStr '''')),
      (''conditionVersion'', py_or (ra_condition_version a) (PyStr '''')),
      (''createdOn'', case ra_created_on a of None \<Rightarrow> PyStr '''' | Some t \<Rightarrow> PyStr t)])"

definition get_role_assignments ::
  "env \<Rightarrow> string \<Rightarrow> bool \<Rightarrow> world \<Rightarrow> pydict list \<times> world" where
  "get_role_assignments env scope include_inherited w =
    (let w1 = did (ListRoleAssignments scope include_inherited) w in
     (case role_assignments_list_for_scope env scope include_inherited of
       Inr objs \<Rightarrow> (map (assignment_row scope) objs, w1)
     | Inl e \<Rightarrow> ([], logged WARNING (''Failed to list role assignments at '' @ scope @ '': '')
                       (Some e) w1)))"

section \<open>Discovery\<close>

definition get_management_groups :: "env \<Rightarrow> world \<Rightarrow> pydict list \<times> world" where
  "get_management_groups env w =
    (let w1 = did ListManagementGroups w in
     (case management_groups_list env of
       Inr objs \<Rightarrow>
         (map (\<lambda>mg. [(''id'', mgo_id mg), (''name'', mgo_name mg),
                      (''display_name'', mgo_display_name mg), (''type'', mgo_type mg)]) objs, w1)
     | Inl e \<Rightarrow> ([], logged WARNING ''Failed to list management groups: '' (Some e) w1)))"

text \<open>An optional list argument counts as given when it is neither \<^verbatim>\<open>None\<close> nor empty.\<close>

definition given :: "'a list option \<Rightarrow> bool" where
  "given xs = (case xs of None \<Rightarrow> False | Some l \<Rightarrow> l \<noteq> [])"

definition subscription_row :: "sub_obj \<Rightarrow> pydict" where
  "subscription_row sub =
     [(''id'', so_id sub), (''subscription_id'', so_subscription_id sub),
      (''display_name'', so_display_name sub), (''state'', so_state sub)]"

definition get_subscriptions :: "env \<Rightarrow> string list option \<Rightarrow> world \<Rightarrow> pydict list \<times> world" where
  "get_subscriptions env subscription_ids w =
    (let w1 = did ListSubscriptions w in
     (case subscriptions_list env of
       Inr objs \<Rightarrow>
         (map subscription_row
            (filter (\<lambda>sub. \<not> (case subscription_ids of
                                  None \<Rightarrow> False
                                | Some ids \<Rightarrow> ids \<noteq> [] \<and> so_subscription_id sub \<notin> PyStr ` set ids))
               objs), w1)
     | Inl e \<Rightarrow> ([], logged WARNING ''Failed to list subscriptions: '' (Some e) w1)))"

definition get_resource_groups :: "env \<Rightarrow> pyval \<Rightarrow> world \<Rightarrow> pydict list \<times> world" where
  "get_resource_groups env subscription_id w =
    (let w1 = did (ListResourceGroups subscription_id) w in
     (case resource_groups_list env subscription_id of
       Inr objs \<Rightarrow>
         (map (\<lambda>rg. [(''id'', rgo_id rg), (''name'', rgo_name rg),
                      (''location'', rgo_location rg), (''subscription_id'', subscription_id)]) objs, w1)
     | Inl e \<Rightarrow> ([], logged WARNING (''Failed to list resource groups for '' @ py_str subscription_id
                       @ '': '') (Some e) w1)))"

definition get_role_definitions :: "env \<Rightarrow> string \<Rightarrow> world \<Rightarrow> pydict list \<times> world" where
  "get_role_definitions env scope w =
    (let w1 = did (ListRoleDefinitions scope) w in
     (case role_definitions_list env scope of
       Inr objs \<Rightarrow>
         (map (\<lambda>role_def.
                 [(''roleDefinitionName'', rd_role_name role_def),
                  (''roleDefinitionId'', rd_id role_def),
                  (''isCustom'', PyBool (\<not> truthy (rd_role_type role_def))),
                  (''description'', py_or (rd_description role_def) (PyStr '''')),
                  (''permissionsCount'', PyInt (int (rd_permissions role_def))),
                  (''assignableScopes'', PyStr (py_join '';'' (rd_assignable_scopes role_def)))])
            objs, w1)
     | Inl e \<Rightarrow> ([], logged WARNING (''Failed to list role definitions at '' @ scope @ '': '')
                       (Some e) w1)))"

section \<open>Principal resolution\<close>

definition REDACTED :: pyval where
  "REDACTED = PyStr ''[REDACTED]''"

text \<open>
  The \<^verbatim>\<open>try\<close> block of \<^verbatim>\<open>resolve_principal\<close>: the directory is asked for a user or an
  application, and any exception leaves both names at the principal id. The answer of
  the directory is the pair (display name, UPN) or (display name, app id).
\<close>

definition graph_lookup :: "env \<Rightarrow> pyval \<Rightarrow> pyval \<Rightarrow> world \<Rightarrow> (pyval \<times> pyval) \<times> world" where
  "graph_lookup env principal_id principal_type w =
    (if HAS_GRAPH env \<and> principal_type \<in> {PyStr ''User'', PyStr ''ServicePrincipal''}
     then (case graph_client env of
             Some e \<Rightarrow> ((principal_id, principal_id), w)
           | None \<Rightarrow>
               if principal_type = PyStr ''User''
               then (case graph_user env principal_id of
                       Inr (display_name, upn) \<Rightarrow>
                         ((py_or display_name principal_id, py_or upn principal_id),
                          did (GraphGetUser principal_id) w)
                     | Inl e \<Rightarrow> ((principal_id, principal_id), did (GraphGetUser principal_id) w))
               else if principal_type = PyStr ''ServicePrincipal''
               then (case graph_application env principal_id of
                       Inr (display_name, app_id) \<Rightarrow>
                         ((py_or display_name principal_id, py_or app_id principal_id),
                          did (GraphGetApplication principal_id) w)
                     | Inl e \<Rightarrow>
                         ((principal_id, principal_id), did (GraphGetApplication principal_id) w))
               else ((principal_id, principal_id), w))
     else ((principal_id, principal_id), w))"

text \<open>
  Cache keys are compared with HOL equality, which is Python's \<^verbatim>\<open>==\<close> on two strings;
  principal ids are strings.
\<close>

definition resolve_principal ::
  "env \<Rightarrow> pyval \<Rightarrow> pyval \<Rightarrow> bool \<Rightarrow> bool \<Rightarrow> world \<Rightarrow> (pyval \<times> pyval) \<times> world" where
  "resolve_principal env principal_id principal_type no_resolve redact w =
    (case map_of (principal_cache w) principal_id of
       Some cached \<Rightarrow> (cached, w)
     | None \<Rightarrow>
         if no_resolve
         then (let result = (if redact then (REDACTED, REDACTED) else (principal_id, principal_id))
               in (result, w\<lparr>principal_cache :=
                              AList.update principal_id result (principal_cache w)\<rparr>))
         else (case graph_lookup env principal_id principal_type w of (names, w1) \<Rightarrow>
                 let result = (if redact then (REDACTED, REDACTED) else names)
                 in (result, w1\<lparr>principal_cache :=
                                 AList.update principal_id result (principal_cache w1)\<rparr>)))"

section \<open>Group expansion\<close>

text \<open>
  The loop over the members: a member whose \<^verbatim>\<open>additional_data\<close> cannot be read raises, and
  the members appended before it stay in the result.
\<close>

fun member_rows :: "member_obj list \<Rightarrow> pydict list \<times> exn option" where
  "member_rows [] = ([], None)"
| "member_rows (member # rest) =
    (case mo_additional_data member of
       None \<Rightarrow> ([], Some (AttributeError ''get''))
     | Some additional_data \<Rightarrow>
         (case member_rows rest of (rows, e) \<Rightarrow>
           ([(''memberPrincipalId'', mo_id member),
             (''memberType'',
                PyStr (py_replace (py_str (dict_get additional_data ''@odata.type'' (PyStr ''Unknown'')))
                         ''#microsoft.graph.'' '''')),
             (''memberDisplayName'', py_or (mo_display_name member) (mo_id member)),
             (''memberUPN'', case mo_user_principal_name member of
                               Some upn \<Rightarrow> upn | None \<Rightarrow> PyStr '''')] # rows, e)))"

definition expand_group_members ::
  "env \<Rightarrow> pyval \<Rightarrow> int \<Rightarrow> membership_mode \<Rightarrow> world \<Rightarrow> pydict list \<times> world" where
  "expand_group_members env group_id top_n mode w =
    (if \<not> HAS_GRAPH env
     then ([], logged WARNING ''Microsoft Graph SDK not available for group expansion'' None w)
     else (case graph_client env of
             Some e \<Rightarrow> ([], logged WARNING (''Failed to expand group '' @ py_str group_id @ '': '')
                              (Some e) w)
           | None \<Rightarrow>
               let w1 = did (GraphGroupMembers mode group_id) w in
               (case graph_group_members env mode group_id of
                 Inl e \<Rightarrow> ([], logged WARNING (''Failed to expand group '' @ py_str group_id @ '': '')
                                  (Some e) w1)
               | Inr response \<Rightarrow>
                   (case member_rows (py_take top_n response) of
                      (members, None) \<Rightarrow> (members, w1)
                    | (members, Some e) \<Rightarrow>
                        (members, logged WARNING (''Failed to expand group '' @ py_str group_id
                                    @ '': '') (Some e) w1)))))"

section \<open>Arguments and the safety rail\<close>

record args =
  subscriptions :: "string list option"
  include_resources :: bool
  expand_group_members_arg :: bool
  redact :: bool
  markdown_top :: int
  no_resolve_principals :: bool
  confirm_large_scan :: bool
  output_path :: "string option"
  safe_mode :: bool
  max_concurrency :: int
  limit :: "int option"
  discover_subscriptions :: bool
  traverse_management_groups :: bool
  group_members_top :: int
  group_membership_mode :: membership_mode
  json :: bool
  bootstrap :: bool

definition LARGE_SUBSCRIPTION_THRESHOLD :: nat where
  "LARGE_SUBSCRIPTION_THRESHOLD = 25"

definition LARGE_RESOURCE_GROUP_THRESHOLD :: nat where
  "LARGE_RESOURCE_GROUP_THRESHOLD = 200"

text \<open>\<^verbatim>\<open>validate_arguments\<close>: \<open>Inl\<close> carries the status of \<^verbatim>\<open>sys.exit\<close>.\<close>

definition validate_arguments :: "args \<Rightarrow> int + args" where
  "validate_arguments args =
    (if \<not> given (subscriptions args) \<and> \<not> discover_subscriptions args
        \<and> \<not> traverse_management_groups args
     then Inl 1
     else if group_membership_mode args = Transitive \<and> \<not> confirm_large_scan args
     then Inl 1
     else (case subscriptions args of
             Some subs \<Rightarrow>
               if subs \<noteq> []
               then Inr (args\<lparr>subscriptions :=
                          Some (filter (\<lambda>sub. sub \<noteq> [])
                                  (map py_strip (concat (map (\<lambda>sub. py_split sub '','') subs))))\<rparr>)
               else Inr args
           | None \<Rightarrow> Inr args))"

definition total_rg_count :: "(pyval \<times> pydict list) list \<Rightarrow> nat" where
  "total_rg_count resource_groups_per_sub = sum_list (map (\<lambda>(sub_id, rgs). length rgs) resource_groups_per_sub)"

definition check_large_tenant_thresholds ::
  "pydict list \<Rightarrow> (pyval \<times> pydict list) list \<Rightarrow> args \<Rightarrow> world \<Rightarrow> bool \<times> world" where
  "check_large_tenant_thresholds subs resource_groups_per_sub args w =
    (let sub_count = length subs;
         rg_count = total_rg_count resource_groups_per_sub in
     if sub_count > LARGE_SUBSCRIPTION_THRESHOLD
        \<or> rg_count > LARGE_RESOURCE_GROUP_THRESHOLD
        \<or> (include_resources args \<and> \<not> given (subscriptions args))
     then (if \<not> confirm_large_scan args
           then (False,
                 logged WARNING ''  Use --confirm-large-scan to proceed with large tenant enumeration'' None
                  (logged WARNING (''  Resource Groups: '' @ str_nat rg_count @ '' (threshold: ''
                       @ str_nat LARGE_RESOURCE_GROUP_THRESHOLD @ '')'') None
                  (logged WARNING (''  Subscriptions: '' @ str_nat sub_count @ '' (threshold: ''
                       @ str_nat LARGE_SUBSCRIPTION_THRESHOLD @ '')'') None
                  (logged WARNING ''LARGE TENANT DETECTED - Safety rail triggered!'' None w))))
           else (True, w))
     else (True, w))"

section \<open>The emitters\<close>

text \<open>
  The redaction loop that \<^verbatim>\<open>write_csv\<close>, \<^verbatim>\<open>write_xlsx\<close>, \<^verbatim>\<open>write_markdown\<close> and
  \<^verbatim>\<open>write_json\<close> each carry, word for word the same: on a copy of the row, each of the
  two keys that is present is overwritten.
\<close>

definition redact_row :: "pydict \<Rightarrow> pydict" where
  "redact_row row =
     fold (\<lambda>key redacted_row.
             if has_key redacted_row key then AList.update key REDACTED redacted_row
             else redacted_row)
       [''principalUPNOrAppId'', ''memberUPN''] row"

definition write_file :: "string \<Rightarrow> file_content \<Rightarrow> world \<Rightarrow> world" where
  "write_file filename content w = w\<lparr>w_files := AList.update filename content (w_files w)\<rparr>"

definition nl :: string where
  "nl = [CHR 0x0A]"

text \<open>
  \<^verbatim>\<open>DictWriter.writerows\<close> with the default \<^verbatim>\<open>extrasaction='raise'\<close> and
  \<^verbatim>\<open>restval=''\<close>: rows go out one at a time, and a row with a key outside
  \<^verbatim>\<open>fieldnames\<close> raises, after the rows before it were written.
\<close>

fun writerows :: "string list \<Rightarrow> pydict list \<Rightarrow> pyval list list \<times> exn option" where
  "writerows fieldnames [] = ([], None)"
| "writerows fieldnames (row # rows) =
    (let wrong_fields = filter (\<lambda>k. k \<notin> set fieldnames) (keys row) in
     if wrong_fields \<noteq> [] then ([], Some (ValueError wrong_fields))
     else (case writerows fieldnames rows of (written, e) \<Rightarrow>
             (map (\<lambda>key. dict_get row key (PyStr '''')) fieldnames # written, e)))"

definition write_csv :: "env \<Rightarrow> pydict list \<Rightarrow> string \<Rightarrow> bool \<Rightarrow> world \<Rightarrow> world" where
  "write_csv env data filename redact_flag w =
    (if data = [] then logged WARNING (''No data to write to '' @ filename) None w
     else
       let data1 = (if redact_flag then map redact_row data else data) in
       if open_fails env filename
       then logged ERROR (''Failed to write CSV '' @ filename @ '': '') (Some (OSError filename)) w
       else (case data1 of
               [] \<Rightarrow> write_file filename (CsvFile [] []) w
             | first # _ \<Rightarrow>
                 let fieldnames = keys first in
                 (case writerows fieldnames data1 of
                    (written, None) \<Rightarrow> write_file filename (CsvFile fieldnames written) w
                  | (written, Some e) \<Rightarrow>
                      logged ERROR (''Failed to write CSV '' @ filename @ '': '') (Some e)
                        (write_file filename (CsvFile fieldnames written) w))))"

text \<open>
  The table \<^verbatim>\<open>write_xlsx\<close> builds in the worksheet: the headers are the keys of the first
  row, and every row gives one cell per header.
\<close>

definition sheet_table :: "pydict list \<Rightarrow> string list \<times> pyval list list" where
  "sheet_table data =
     (case data of
        [] \<Rightarrow> ([], [])
      | first # _ \<Rightarrow>
          let headers = keys first in
          (headers, map (\<lambda>row. map (\<lambda>header. dict_get row header (PyStr '''')) headers) data))"

text \<open>The rows handed to \<^verbatim>\<open>ws.append\<close>, one call each: the header row, then the data rows.\<close>

definition worksheet_rows :: "pydict list \<Rightarrow> pyval list list" where
  "worksheet_rows data =
     (case data of
        [] \<Rightarrow> []
      | _ # _ \<Rightarrow> (case sheet_table data of (headers, rows) \<Rightarrow> map PyStr headers # rows))"

text \<open>The calls of \<^verbatim>\<open>ws.append\<close> in order: the first one that raises ends them.\<close>

fun append_rows :: "env \<Rightarrow> pyval list list \<Rightarrow> exn option" where
  "append_rows env [] = None"
| "append_rows env (cells # rest) =
     (case worksheet_append env cells of
        Some e \<Rightarrow> Some e
      | None \<Rightarrow> append_rows env rest)"

text \<open>
  The workbook lives in memory until \<^verbatim>\<open>wb.save\<close>: when an append raises, or the file cannot
  be opened, the \<^verbatim>\<open>except\<close> clause logs the error and no file is written.
\<close>

definition write_xlsx :: "env \<Rightarrow> pydict list \<Rightarrow> string \<Rightarrow> bool \<Rightarrow> world \<Rightarrow> world" where
  "write_xlsx env data filename redact_flag w =
    (if \<not> HAS_OPENPYXL env then w
     else if data = [] then logged WARNING (''No data to write to '' @ filename) None w
     else
       let data1 = (if redact_flag then map redact_row data else data) in
       if \<not> openpyxl_workbook env
       then logged ERROR ''openpyxl does not provide Workbook, skipping XLSX export'' None w
       else (case append_rows env (worksheet_rows data1) of
               Some e \<Rightarrow>
                 logged ERROR (''Failed to write XLSX '' @ filename @ '': '') (Some e) w
             | None \<Rightarrow>
                 if open_fails env filename
                 then logged ERROR (''Failed to write XLSX '' @ filename @ '': '')
                        (Some (OSError filename)) w
                 else (case sheet_table data1 of
                         (headers, rows) \<Rightarrow> write_file filename (XlsxFile headers rows) w)))"

text \<open>A table line of the Markdown file, and the cells of a data row under the headers.\<close>

definition md_line :: "string list \<Rightarrow> string" where
  "md_line cells = ''| '' @ py_join '' | '' cells @ '' |'' @ nl"

definition md_cells :: "string list \<Rightarrow> pydict \<Rightarrow> string list" where
  "md_cells headers row = map (\<lambda>header. py_str (dict_get row header (PyStr ''''))) headers"

definition write_markdown :: "env \<Rightarrow> pydict list \<Rightarrow> string \<Rightarrow> int \<Rightarrow> bool \<Rightarrow> world \<Rightarrow> world" where
  "write_markdown env data filename top_n redact_flag w =
    (if data = [] then logged WARNING (''No data to write to '' @ filename) None w
     else
       let limited_data = py_take top_n data;
           limited_data1 = (if redact_flag then map redact_row limited_data else limited_data) in
       if open_fails env filename
       then logged ERROR (''Failed to write Markdown '' @ filename @ '': '')
              (Some (OSError filename)) w
       else write_file filename
              (TextFile
                ((case limited_data1 of
                    [] \<Rightarrow> []
                  | first # _ \<Rightarrow>
                      let headers = keys first in
                      [md_line headers,
                       ''|'' @ py_join ''|'' (map (\<lambda>_. ''---'') headers) @ ''|'' @ nl]
                      @ map (\<lambda>row. md_line (md_cells headers row)) limited_data1)
                 @ [nl @ ''*Showing first '' @ str_nat (length limited_data1) @ '' rows of ''
                      @ str_nat (length data) @ '' total*'' @ nl])) w)"

definition write_json :: "env \<Rightarrow> pydict list \<Rightarrow> string \<Rightarrow> bool \<Rightarrow> world \<Rightarrow> world" where
  "write_json env data filename redact_flag w =
    (if data = [] then logged WARNING (''No data to write to '' @ filename) None w
     else
       let data1 = (if redact_flag then map redact_row data else data) in
       if open_fails env filename
       then logged ERROR (''Failed to write JSON '' @ filename @ '': '') (Some (OSError filename)) w
       else write_file filename (JsonRows data1) w)"

definition write_index_file :: "env \<Rightarrow> file_content \<Rightarrow> string \<Rightarrow> world \<Rightarrow> world" where
  "write_index_file env index_data filename w =
    (if open_fails env filename
     then logged ERROR (''Failed to write index file '' @ filename @ '': '')
            (Some (OSError filename)) w
     else write_file filename index_data w)"

text \<open>\<^verbatim>\<open>write_summary\<close> of \<^verbatim>\<open>logging_utils\<close>; the logs directory exists since \<^verbatim>\<open>init_logging\<close>.\<close>

definition write_summary :: "env \<Rightarrow> summary \<Rightarrow> string \<Rightarrow> world \<Rightarrow> world" where
  "write_summary env summary_data summary_file w =
    (if open_fails env summary_file
     then logged ERROR ''Failed to write summary: '' (Some (OSError summary_file)) w
     else write_file summary_file (SummaryJson summary_data) w)"

record output_paths =
  base :: string
  role_definitions :: string
  role_assignments :: string
  role_assignments_xlsx :: string
  role_assignments_md :: string
  index :: string

text \<open>
  \<^verbatim>\<open>new_output_paths\<close> of \<^verbatim>\<open>logging_utils\<close>: the directory is created, the paths are
  joined by \<^verbatim>\<open>pathlib\<close>.
\<close>

definition new_output_paths :: "env \<Rightarrow> string option \<Rightarrow> world \<Rightarrow> output_paths \<times> world" where
  "new_output_paths env base_path w =
    (let base_path1 = (case base_path of
                         None \<Rightarrow> ''output/azure/export_rbac_roles_and_assignments_''
                                   @ utc_timestamp env
                       | Some p \<Rightarrow> p);
         output_dir = path_str env base_path1 in
     (\<lparr>base = output_dir,
       role_definitions = path_join env output_dir ''role_definitions.csv'',
       role_assignments = path_join env output_dir ''role_assignments.csv'',
       role_assignments_xlsx = path_join env output_dir ''role_assignments.xlsx'',
       role_assignments_md = path_join env output_dir ''role_assignments.md'',
       index = path_join env output_dir ''index.json''\<rparr>,
      w\<lparr>w_dirs := w_dirs w @ [output_dir]\<rparr>))"

section \<open>The run\<close>

datatype outcome = Exit int | Uncaught exn

text \<open>The accumulators of \<^verbatim>\<open>main\<close>: the two merged collections, the three counters of
  \<^verbatim>\<open>scopes_processed\<close>, \<^verbatim>\<open>scopes_skipped\<close> and \<^verbatim>\<open>errors\<close>.\<close>

record run_state =
  all_role_definitions :: "pydict list"
  all_role_assignments :: "pydict list"
  n_managementGroups :: nat
  n_subscriptions :: nat
  n_resourceGroups :: nat
  skipped :: "string list"
  error_list :: "(string \<times> exn) list"

text \<open>How one pass through a loop body ends: normally, at \<^verbatim>\<open>break\<close>, or in an exception.\<close>

datatype flow = Next | Break | Raised exn

text \<open>\<^verbatim>\<open>args.limit and count >= args.limit\<close>\<close>

definition limit_reached :: "int option \<Rightarrow> nat \<Rightarrow> bool" where
  "limit_reached lim n = (case lim of None \<Rightarrow> False | Some k \<Rightarrow> k \<noteq> 0 \<and> k \<le> int n)"

definition run_bootstrap :: "env \<Rightarrow> args \<Rightarrow> world \<Rightarrow> int option \<times> world" where
  "run_bootstrap env args w =
    (if bootstrap args
     then (if \<not> which_pwsh env then (Some 1, w)
           else if bootstrap_returncode env \<noteq> 0 then (Some 1, did RunBootstrap w)
           else (None, did RunBootstrap w))
     else (None, w))"

text \<open>\<^verbatim>\<open>preflight_check\<close>: the credential type that worked, if any.\<close>

definition preflight_check :: "env \<Rightarrow> world \<Rightarrow> string option \<times> world" where
  "preflight_check env w =
    (let w1 = did (TryCredential ''DefaultAzureCredential'') w in
     (case default_credential env of
        None \<Rightarrow> (Some ''DefaultAzureCredential'', w1)
      | Some e1 \<Rightarrow>
          let w2 = did (TryCredential ''AzureCliCredential'')
                     (logged WARNING ''DefaultAzureCredential failed: '' (Some e1) w1) in
          (case cli_credential env of
             None \<Rightarrow> (Some ''AzureCliCredential'', w2)
           | Some e2 \<Rightarrow>
               (None,
                logged ERROR (''Authentication failed. Please run '' @ [CHR 0x27] @ ''az login''
                                @ [CHR 0x27] @ '' or ensure SSO is configured.'') None
                  (logged ERROR ''AzureCliCredential failed: '' (Some e2) w2)))))"

text \<open>The loop that fills \<^verbatim>\<open>resource_groups_per_sub\<close>. A \<^verbatim>\<open>KeyError\<close> here is caught by
  nothing.\<close>

fun enumerate_resource_groups ::
  "env \<Rightarrow> args \<Rightarrow> pydict list \<Rightarrow> (pyval \<times> pydict list) list \<Rightarrow> world
     \<Rightarrow> (exn \<times> world) + ((pyval \<times> pydict list) list \<times> world)" where
  "enumerate_resource_groups env args [] resource_groups_per_sub w =
     Inr (resource_groups_per_sub, w)"
| "enumerate_resource_groups env args (sub # rest) resource_groups_per_sub w =
    (case getitem sub ''subscription_id'' of
       Inl e \<Rightarrow> Inl (e, w)
     | Inr sub_id \<Rightarrow>
         (case get_resource_groups env sub_id w of (rgs, w1) \<Rightarrow>
            let resource_groups_per_sub1 = AList.update sub_id rgs resource_groups_per_sub in
            if limit_reached (limit args) (length resource_groups_per_sub1)
            then Inr (resource_groups_per_sub1, w1)
            else enumerate_resource_groups env args rest resource_groups_per_sub1 w1))"

text \<open>
  The run up to the safety rail: argument validation, bootstrap, credentials, management
  groups, subscriptions, resource groups. \<open>Inl\<close> is a run that ended there.
\<close>

definition discovery ::
  "env \<Rightarrow> args \<Rightarrow> world
     \<Rightarrow> (outcome \<times> world)
       + (args \<times> string \<times> pydict list \<times> pydict list \<times> (pyval \<times> pydict list) list \<times> world)" where
  "discovery env args0 w0 =
    (case validate_arguments args0 of
       Inl status \<Rightarrow> Inl (Exit status, w0)
     | Inr args \<Rightarrow>
    (case run_bootstrap env args w0 of
       (Some status, w1) \<Rightarrow> Inl (Exit status, w1)
     | (None, w1) \<Rightarrow>
    (case preflight_check env w1 of
       (None, w2) \<Rightarrow> Inl (Exit 1, w2)
     | (Some cred_type, w2) \<Rightarrow>
    (case (if traverse_management_groups args
           then (case get_management_groups env w2 of (mgs, w) \<Rightarrow>
                   (mgs, if mgs = []
                         then logged WARNING ''No management groups found or access denied'' None w
                         else w))
           else ([], w2)) of
       (management_groups, w3) \<Rightarrow>
    (case (if given (subscriptions args) then get_subscriptions env (subscriptions args) w3
           else if discover_subscriptions args \<or> traverse_management_groups args
           then get_subscriptions env None w3
           else ([], w3)) of
       (subs, w4) \<Rightarrow>
    if subs = []
    then Inl (Exit 1, logged ERROR ''No subscriptions found or accessible'' None w4)
    else
    (case (if include_resources args \<or> (case limit args of None \<Rightarrow> False | Some k \<Rightarrow> k \<noteq> 0)
           then enumerate_resource_groups env args subs [] w4
           else Inr ([], w4)) of
       Inl (e, w5) \<Rightarrow> Inl (Uncaught e, w5)
     | Inr (resource_groups_per_sub, w5) \<Rightarrow>
         Inr (args, cred_type, management_groups, subs, resource_groups_per_sub, w5)))))))"

subsection \<open>Aggregation\<close>

text \<open>The loop under the comment \<^verbatim>\<open># Mark inherited assignments\<close>.\<close>

fun mark_inherited :: "string \<Rightarrow> pydict list \<Rightarrow> exn + pydict list" where
  "mark_inherited scope [] = Inr []"
| "mark_inherited scope (assignment # rest) =
    (case getitem assignment ''scope'' of
       Inl e \<Rightarrow> Inl e
     | Inr s \<Rightarrow>
         (case mark_inherited scope rest of
            Inl e \<Rightarrow> Inl e
          | Inr rest1 \<Rightarrow>
              Inr ((if s \<noteq> PyStr scope then AList.update ''inherited'' (PyBool True) assignment
                    else assignment) # rest1)))"

definition process_mg :: "env \<Rightarrow> args \<Rightarrow> pydict \<Rightarrow> run_state \<times> world \<Rightarrow> flow \<times> run_state \<times> world" where
  "process_mg env args mg stw =
    (case stw of (st, w) \<Rightarrow>
     (case getitem mg ''name'' of
        Inl e \<Rightarrow> (Raised e, st, w)
      | Inr mg_id \<Rightarrow>
          let scope = ''/providers/Microsoft.Management/managementGroups/'' @ py_str mg_id in
          (case get_role_definitions env scope w of (role_defs, w1) \<Rightarrow>
             let st1 = st\<lparr>all_role_definitions := all_role_definitions st @ role_defs\<rparr> in
             (case get_role_assignments env scope True w1 of (assignments, w2) \<Rightarrow>
                (case mark_inherited scope assignments of
                   Inl e \<Rightarrow> (Raised e, st1, w2)
                 | Inr assignments1 \<Rightarrow>
                     let st2 = st1\<lparr>all_role_assignments := all_role_assignments st1 @ assignments1,
                                    n_managementGroups := n_managementGroups st1 + 1\<rparr> in
                     (if limit_reached (limit args) (n_managementGroups st2) then Break else Next,
                      st2, w2))))))"

definition mg_failed :: "pydict \<Rightarrow> exn \<Rightarrow> run_state \<times> world \<Rightarrow> run_state \<times> world" where
  "mg_failed mg e stw =
    (case stw of (st, w) \<Rightarrow>
       let name = py_str (dict_get mg ''name'' (PyStr ''unknown''));
           error_msg = ''Failed to process management group '' @ name @ '': '' in
       (st\<lparr>error_list := error_list st @ [(error_msg, e)],
           skipped := skipped st @ [''MG:'' @ name]\<rparr>,
        logged ERROR error_msg (Some e) w))"

fun mg_loop :: "env \<Rightarrow> args \<Rightarrow> pydict list \<Rightarrow> run_state \<times> world \<Rightarrow> run_state \<times> world" where
  "mg_loop env args [] stw = stw"
| "mg_loop env args (mg # rest) stw =
    (case process_mg env args mg stw of
       (Raised e, stw1) \<Rightarrow> mg_loop env args rest (mg_failed mg e stw1)
     | (Break, stw1) \<Rightarrow> stw1
     | (Next, stw1) \<Rightarrow> mg_loop env args rest stw1)"

definition process_rg ::
  "env \<Rightarrow> args \<Rightarrow> pyval \<Rightarrow> pydict \<Rightarrow> run_state \<times> world \<Rightarrow> flow \<times> run_state \<times> world" where
  "process_rg env args sub_id rg stw =
    (case stw of (st, w) \<Rightarrow>
     (case getitem rg ''name'' of
        Inl e \<Rightarrow> (Raised e, st, w)
      | Inr rg_name \<Rightarrow>
          let rg_scope = ''/subscriptions/'' @ py_str sub_id @ ''/resourceGroups/'' @ py_str rg_name in
          (case get_role_assignments env rg_scope True w of (rg_assignments, w1) \<Rightarrow>
             (case mark_inherited rg_scope rg_assignments of
                Inl e \<Rightarrow> (Raised e, st, w1)
              | Inr rg_assignments1 \<Rightarrow>
                  let st1 = st\<lparr>all_role_assignments := all_role_assignments st @ rg_assignments1,
                                n_resourceGroups := n_resourceGroups st + 1\<rparr> in
                  (if limit_reached (limit args) (n_resourceGroups st1) then Break else Next,
                   st1, w1)))))"

definition rg_failed :: "pyval \<Rightarrow> pydict \<Rightarrow> exn \<Rightarrow> run_state \<times> world \<Rightarrow> run_state \<times> world" where
  "rg_failed sub_id rg e stw =
    (case stw of (st, w) \<Rightarrow>
       let name = py_str (dict_get rg ''name'' (PyStr ''unknown''));
           error_msg = ''Failed to process resource group '' @ name @ '' in '' @ py_str sub_id
                         @ '': '' in
       (st\<lparr>error_list := error_list st @ [(error_msg, e)],
           skipped := skipped st @ [''RG:'' @ name @ '':'' @ py_str sub_id]\<rparr>,
        logged ERROR error_msg (Some e) w))"

fun rg_loop ::
  "env \<Rightarrow> args \<Rightarrow> pyval \<Rightarrow> pydict list \<Rightarrow> run_state \<times> world \<Rightarrow> run_state \<times> world" where
  "rg_loop env args sub_id [] stw = stw"
| "rg_loop env args sub_id (rg # rest) stw =
    (case process_rg env args sub_id rg stw of
       (Raised e, stw1) \<Rightarrow> rg_loop env args sub_id rest (rg_failed sub_id rg e stw1)
     | (Break, stw1) \<Rightarrow> stw1
     | (Next, stw1) \<Rightarrow> rg_loop env args sub_id rest stw1)"

definition process_sub ::
  "env \<Rightarrow> args \<Rightarrow> (pyval \<times> pydict list) list \<Rightarrow> pydict \<Rightarrow> run_state \<times> world
     \<Rightarrow> flow \<times> run_state \<times> world" where
  "process_sub env args resource_groups_per_sub sub stw =
    (case stw of (st, w) \<Rightarrow>
     (case getitem sub ''subscription_id'' of
        Inl e \<Rightarrow> (Raised e, st, w)
      | Inr sub_id \<Rightarrow>
          let scope = ''/subscriptions/'' @ py_str sub_id in
          (case get_role_definitions env scope w of (role_defs, w1) \<Rightarrow>
             let st1 = st\<lparr>all_role_definitions := all_role_definitions st @ role_defs\<rparr> in
             (case get_role_assignments env scope True w1 of (assignments, w2) \<Rightarrow>
                (case mark_inherited scope assignments of
                   Inl e \<Rightarrow> (Raised e, st1, w2)
                 | Inr assignments1 \<Rightarrow>
                     let st2 = st1\<lparr>all_role_assignments := all_role_assignments st1 @ assignments1,
                                    n_subscriptions := n_subscriptions st1 + 1\<rparr> in
                     (case (if include_resources args
                            then (case map_of resource_groups_per_sub sub_id of
                                    Some rgs \<Rightarrow> rg_loop env args sub_id rgs (st2, w2)
                                  | None \<Rightarrow> (st2, w2))
                            else (st2, w2)) of
                        (st3, w3) \<Rightarrow>
                          (if limit_reached (limit args) (n_subscriptions st3) then Break else Next,
                           st3, w3)))))))"

definition sub_failed :: "pydict \<Rightarrow> exn \<Rightarrow> run_state \<times> world \<Rightarrow> run_state \<times> world" where
  "sub_failed sub e stw =
    (case stw of (st, w) \<Rightarrow>
       let name = py_str (dict_get sub ''subscription_id'' (PyStr ''unknown''));
           error_msg = ''Failed to process subscription '' @ name @ '': '' in
       (st\<lparr>error_list := error_list st @ [(error_msg, e)],
           skipped := skipped st @ [''SUB:'' @ name]\<rparr>,
        logged ERROR error_msg (Some e) w))"

fun sub_loop ::
  "env \<Rightarrow> args \<Rightarrow> (pyval \<times> pydict list) list \<Rightarrow> pydict list \<Rightarrow> run_state \<times> world
     \<Rightarrow> run_state \<times> world" where
  "sub_loop env args resource_groups_per_sub [] stw = stw"
| "sub_loop env args resource_groups_per_sub (sub # rest) stw =
    (case process_sub env args resource_groups_per_sub sub stw of
       (Raised e, stw1) \<Rightarrow> sub_loop env args resource_groups_per_sub rest (sub_failed sub e stw1)
     | (Break, stw1) \<Rightarrow> stw1
     | (Next, stw1) \<Rightarrow> sub_loop env args resource_groups_per_sub rest stw1)"

text \<open>The two aggregation loops of \<^verbatim>\<open>main\<close>, from empty accumulators.\<close>

definition aggregate ::
  "env \<Rightarrow> args \<Rightarrow> pydict list \<Rightarrow> pydict list \<Rightarrow> (pyval \<times> pydict list) list \<Rightarrow> world
     \<Rightarrow> run_state \<times> world" where
  "aggregate env args management_groups subs resource_groups_per_sub w =
    (let st0 = \<lparr>all_role_definitions = [], all_role_assignments = [],
                n_managementGroups = 0, n_subscriptions = 0, n_resourceGroups = 0,
                skipped = [], error_list = []\<rparr> in
     sub_loop env args resource_groups_per_sub subs
       (if traverse_management_groups args \<and> management_groups \<noteq> []
        then mg_loop env args management_groups (st0, w)
        else (st0, w)))"

subsection \<open>Principal names and group members\<close>

text \<open>
  One pass of the loop that resolves principals. The \<^verbatim>\<open>except\<close> clause formats its
  message with \<^verbatim>\<open>assignment['principalId']\<close>: when that lookup is what failed, it fails
  again there and nothing catches it.
\<close>

definition resolve_one :: "env \<Rightarrow> args \<Rightarrow> pydict \<Rightarrow> world \<Rightarrow> (exn \<times> world) + (pydict \<times> world)" where
  "resolve_one env args assignment w =
    (case getitem assignment ''principalId'' of
       Inl e \<Rightarrow> Inl (e, w)
     | Inr principal_id \<Rightarrow>
         (case getitem assignment ''principalType'' of
            Inl e \<Rightarrow> Inr (assignment, w)
          | Inr principal_type \<Rightarrow>
              (case resolve_principal env principal_id principal_type
                      (no_resolve_principals args) (redact args) w of
                 ((display_name, upn_or_app_id), w1) \<Rightarrow>
                   Inr (AList.update ''principalUPNOrAppId'' upn_or_app_id
                          (AList.update ''principalDisplayName'' display_name assignment), w1))))"

fun resolve_all ::
  "env \<Rightarrow> args \<Rightarrow> pydict list \<Rightarrow> world \<Rightarrow> (exn \<times> world) + (pydict list \<times> world)" where
  "resolve_all env args [] w = Inr ([], w)"
| "resolve_all env args (assignment # rest) w =
    (case resolve_one env args assignment w of
       Inl ew \<Rightarrow> Inl ew
     | Inr (assignment1, w1) \<Rightarrow>
         (case resolve_all env args rest w1 of
            Inl ew \<Rightarrow> Inl ew
          | Inr (rest1, w2) \<Rightarrow> Inr (assignment1 # rest1, w2)))"

text \<open>The dictionary \<^verbatim>\<open>main\<close> builds from the first member, key by key.\<close>

definition first_member_info :: "args \<Rightarrow> pydict \<Rightarrow> exn + pydict" where
  "first_member_info args first_member =
    (case getitem first_member ''memberPrincipalId'' of Inl e \<Rightarrow> Inl e | Inr member_id \<Rightarrow>
     (case getitem first_member ''memberType'' of Inl e \<Rightarrow> Inl e | Inr member_type \<Rightarrow>
      (case getitem first_member ''memberDisplayName'' of Inl e \<Rightarrow> Inl e | Inr member_name \<Rightarrow>
       (case (if \<not> redact args then getitem first_member ''memberUPN'' else Inr REDACTED) of
          Inl e \<Rightarrow> Inl e
        | Inr member_upn \<Rightarrow>
            Inr [(''memberPrincipalId'', member_id), (''memberType'', member_type),
                 (''memberDisplayName'', member_name), (''memberUPN'', member_upn)]))))"

definition expand_one :: "env \<Rightarrow> args \<Rightarrow> pydict \<Rightarrow> world \<Rightarrow> (exn \<times> world) + (pydict \<times> world)" where
  "expand_one env args assignment w =
    (case getitem assignment ''principalType'' of
       Inl e \<Rightarrow> Inl (e, w)
     | Inr principal_type \<Rightarrow>
         if principal_type = PyStr ''Group''
         then (case getitem assignment ''principalId'' of
                 Inl e \<Rightarrow> Inl (e, w)
               | Inr principal_id \<Rightarrow>
                   (case expand_group_members env principal_id (group_members_top args)
                           (group_membership_mode args) w of
                      (members, w1) \<Rightarrow>
                        (case members of
                           [] \<Rightarrow> Inr (assignment, w1)
                         | first_member # _ \<Rightarrow>
                             let assignment1 = AList.update ''memberCount''
                                                 (PyInt (int (length members))) assignment in
                             (case first_member_info args first_member of
                                Inr info \<Rightarrow> Inr (dict_update assignment1 info, w1)
                              | Inl e \<Rightarrow>
                                  Inr (assignment1,
                                       logged WARNING (''Failed to expand group ''
                                         @ py_str principal_id @ '': '') (Some e) w1)))))
         else Inr (assignment, w))"

fun expand_all ::
  "env \<Rightarrow> args \<Rightarrow> pydict list \<Rightarrow> world \<Rightarrow> (exn \<times> world) + (pydict list \<times> world)" where
  "expand_all env args [] w = Inr ([], w)"
| "expand_all env args (assignment # rest) w =
    (case expand_one env args assignment w of
       Inl ew \<Rightarrow> Inl ew
     | Inr (assignment1, w1) \<Rightarrow>
         (case expand_all env args rest w1 of
            Inl ew \<Rightarrow> Inl ew
          | Inr (rest1, w2) \<Rightarrow> Inr (assignment1 # rest1, w2)))"

text \<open>
  The merged assignment collection as the emitters receive it: after the aggregation,
  principal names are filled in unless switched off, and group members when asked for.
\<close>

definition enrich ::
  "env \<Rightarrow> args \<Rightarrow> pydict list \<Rightarrow> world \<Rightarrow> (exn \<times> world) + (pydict list \<times> world)" where
  "enrich env args assignments w =
    (case (if \<not> no_resolve_principals args \<and> assignments \<noteq> []
           then resolve_all env args assignments w
           else Inr (assignments, w)) of
       Inl ew \<Rightarrow> Inl ew
     | Inr (assignments1, w1) \<Rightarrow>
         if expand_group_members_arg args \<and> assignments1 \<noteq> []
         then expand_all env args assignments1 w1
         else Inr (assignments1, w1))"

subsection \<open>Output\<close>

text \<open>The partition into \<^verbatim>\<open>sub_assignments\<close>: by \<^verbatim>\<open>subscriptionId\<close>, when it is not empty.\<close>

definition group_by_subscription :: "pydict list \<Rightarrow> (pyval \<times> pydict list) list" where
  "group_by_subscription assignments =
     fold (\<lambda>assignment sub_assignments.
             let sub_id = dict_get assignment ''subscriptionId'' (PyStr '''') in
             if truthy sub_id
             then (case map_of sub_assignments sub_id of
                     None \<Rightarrow> sub_assignments @ [(sub_id, [assignment])]
                   | Some found \<Rightarrow> AList.update sub_id (found @ [assignment]) sub_assignments)
             else sub_assignments)
       assignments []"

definition write_per_subscription ::
  "env \<Rightarrow> args \<Rightarrow> output_paths \<Rightarrow> pyval \<times> pydict list \<Rightarrow> world \<Rightarrow> world" where
  "write_per_subscription env args paths entry w =
    (case entry of (sub_id, assignments) \<Rightarrow>
       let sub_file = py_replace (role_assignments paths) ''.csv'' (''_'' @ py_str sub_id @ ''.csv'');
           w1 = write_csv env assignments sub_file (redact args) w in
       if HAS_OPENPYXL env
       then write_xlsx env assignments (py_replace sub_file ''.csv'' ''.xlsx'') (redact args) w1
       else w1)"

definition write_outputs ::
  "env \<Rightarrow> args \<Rightarrow> output_paths \<Rightarrow> pydict list \<Rightarrow> pydict list \<Rightarrow> world \<Rightarrow> world" where
  "write_outputs env args paths role_defs assignments w =
    (let w1 = write_csv env role_defs (role_definitions paths) (redact args) w;
         w2 = write_csv env assignments (role_assignments paths) (redact args) w1;
         w3 = (if HAS_OPENPYXL env
               then write_xlsx env assignments (role_assignments_xlsx paths) (redact args) w2
               else w2);
         w4 = (if markdown_top args > 0
               then write_markdown env assignments (role_assignments_md paths) (markdown_top args)
                      (redact args) w3
               else w3);
         w5 = (if json args
               then write_json env assignments
                      (py_replace (role_assignments paths) ''.csv'' ''.json'') (redact args)
                      (write_json env role_defs
                         (py_replace (role_definitions paths) ''.csv'' ''.json'') (redact args) w4)
               else w4);
         sub_assignments = group_by_subscription assignments;
         w6 = fold (write_per_subscription env args paths) sub_assignments w5;
         index_data = IndexJson
           [(''role_definitions_csv'', Some (role_definitions paths)),
            (''role_assignments_csv'', Some (role_assignments paths)),
            (''role_assignments_xlsx'',
               if HAS_OPENPYXL env then Some (role_assignments_xlsx paths) else None),
            (''role_assignments_md'',
               if markdown_top args > 0 then Some (role_assignments_md paths) else None)]
           (length role_defs, length assignments)
           (map (\<lambda>(sub_id, found). (sub_id, length found)) sub_assignments)
     in write_index_file env index_data (index paths) w6)"

text \<open>
  The run after the safety rail: output paths, aggregation, principal names, group
  members, the emitters, the summary, the exit status.
\<close>

definition export ::
  "env \<Rightarrow> args \<Rightarrow> string \<Rightarrow> pydict list \<Rightarrow> pydict list \<Rightarrow> (pyval \<times> pydict list) list \<Rightarrow> world
     \<Rightarrow> outcome \<times> world" where
  "export env args cred_type management_groups subs resource_groups_per_sub w =
    (case new_output_paths env (output_path args) w of (paths, w1) \<Rightarrow>
     (case aggregate env args management_groups subs resource_groups_per_sub w1 of (st, w2) \<Rightarrow>
      (case enrich env args (all_role_assignments st) w2 of
         Inl (e, w3) \<Rightarrow> (Uncaught e, w3)
       | Inr (assignments, w3) \<Rightarrow>
           let w4 = write_outputs env args paths (all_role_definitions st) assignments w3;
               summary_data =
                 \<lparr>scopes_processed =
                    (n_managementGroups st, n_subscriptions st, n_resourceGroups st),
                  scopes_skipped = skipped st,
                  roles_count = length (all_role_definitions st),
                  assignments_count = length assignments,
                  warnings = [],
                  errors = error_list st,
                  success = (error_list st = []),
                  credential_type = cred_type\<rparr>;
               w5 = write_summary env summary_data (summary_path env) w4 in
           (if error_list st \<noteq> [] then Exit 1
            else if skipped st \<noteq> [] then Exit 2
            else Exit 0, w5))))"

definition main :: "env \<Rightarrow> args \<Rightarrow> world \<Rightarrow> outcome \<times> world" where
  "main env args0 w0 =
    (case discovery env args0 w0 of
       Inl ended \<Rightarrow> ended
     | Inr (args, cred_type, management_groups, subs, resource_groups_per_sub, w) \<Rightarrow>
         (case check_large_tenant_thresholds subs resource_groups_per_sub args w of
            (False, w1) \<Rightarrow>
              (Exit 2, logged ERROR ''Large tenant safety rail triggered - exiting'' None w1)
          | (True, w1) \<Rightarrow>
              export env args cred_type management_groups subs resource_groups_per_sub w1))"

text \<open>A process starts with nothing called, logged or written and an empty cache.\<close>

definition initial_world :: world where
  "initial_world = \<lparr>w_calls = [], w_log = [], w_files = [], w_dirs = [], principal_cache = []\<rparr>"

section \<open>Predicates of the statements\<close>




text \<open>
  Every merged assignment carries in its \<^verbatim>\<open>scope\<close> field a scope that was queried, with
  inherited assignments included, among the calls made after the first \<open>n\<close>.
\<close>

definition scopes_queried :: "nat \<Rightarrow> run_state \<times> world \<Rightarrow> bool" where
  "scopes_queried n stw =
     (case stw of (st, w) \<Rightarrow>
        n \<le> length (w_calls w) \<and>
        (\<forall>row \<in> set (all_role_assignments st).
           \<exists>queried. getitem row ''scope'' = Inr (PyStr queried)
                    \<and> ListRoleAssignments queried True \<in> set (drop n (w_calls w))))"

section \<open>Example tenants\<close>

text \<open>
  The spreadsheet library of the example tenants refuses, as openpyxl does, a string cell
  that holds a control character other than tab, line feed and carriage return.
\<close>

definition illegal_character :: "char \<Rightarrow> bool" where
  "illegal_character c = (let n = (of_char c :: nat) in
      n \<le> 8 \<or> n = 11 \<or> n = 12 \<or> (14 \<le> n \<and> n \<le> 31))"

fun refuse_illegal_characters :: "pyval list \<Rightarrow> exn option" where
  "refuse_illegal_characters [] = None"
| "refuse_illegal_characters (PyStr s # cells) =
     (if list_ex illegal_character s then Some (IllegalCharacterError s)
      else refuse_illegal_characters cells)"
| "refuse_illegal_characters (_ # cells) = refuse_illegal_characters cells"

text \<open>
  A tenant in which every call succeeds: the given subscriptions, no management groups,
  no resource groups, no role definitions, the given answer to the assignment query, a
  directory that knows nobody, and a writable file system.
\<close>

definition tenant ::
  "sub_obj list \<Rightarrow> (string \<Rightarrow> bool \<Rightarrow> exn + role_assignment_obj list) \<Rightarrow> env" where
  "tenant subs assignments_at =
    \<lparr>HAS_OPENPYXL = True, HAS_GRAPH = True, openpyxl_workbook = True,
     worksheet_append = refuse_illegal_characters,
     which_pwsh = True, bootstrap_returncode = 0,
     default_credential = None, cli_credential = None,
     management_groups_list = Inr [],
     subscriptions_list = Inr subs,
     resource_groups_list = (\<lambda>_. Inr []),
     role_definitions_list = (\<lambda>_. Inr []),
     role_assignments_list_for_scope = assignments_at,
     graph_client = None,
     graph_user = (\<lambda>_. Inl (ApiError ''not found'')),
     graph_application = (\<lambda>_. Inl (ApiError ''not found'')),
     graph_group_members = (\<lambda>_ _. Inr []),
     open_fails = (\<lambda>_. False),
     utc_timestamp = ''20240101_000000'',
     path_str = (\<lambda>p. p),
     path_join = (\<lambda>d f. d @ ''/'' @ f),
     summary_path = ''logs/summary.json''\<rparr>"

definition sub_abc :: sub_obj where
  "sub_abc = \<lparr>so_id = PyStr ''/subscriptions/abc'', so_subscription_id = PyStr ''abc'',
     so_display_name = PyStr ''Sub'', so_state = PyStr ''Enabled''\<rparr>"

text \<open>\<^verbatim>\<open>--subscriptions abc --output-path out\<close>, every other option at its default.\<close>

definition args_abc :: args where
  "args_abc = \<lparr>subscriptions = Some [''abc''], include_resources = False,
     expand_group_members_arg = False, redact = False, markdown_top = 200,
     no_resolve_principals = False, confirm_large_scan = False, output_path = Some ''out'',
     safe_mode = True, max_concurrency = 4, limit = None, discover_subscriptions = False,
     traverse_management_groups = False, group_members_top = 500,
     group_membership_mode = Direct, json = False, bootstrap = False\<rparr>"

text \<open>An assignment made at a management group, which the provider does not flag.\<close>

definition ra_from_mg :: role_assignment_obj where
  "ra_from_mg = \<lparr>ra_scope = ''/providers/Microsoft.Management/managementGroups/mg1'',
     ra_role_definition_id = PyStr ''rd1'', ra_id = PyStr ''a1'', ra_principal_id = PyStr ''p1'',
     ra_principal_type = PyStr ''User'', ra_additional_properties = None,
     ra_condition = PyNone, ra_condition_version = PyNone, ra_created_on = None\<rparr>"

text \<open>The same tenant with a directory that knows the user \<^verbatim>\<open>p1\<close>.\<close>

definition tenant_with_alice :: env where
  "tenant_with_alice =
     (tenant [sub_abc] (\<lambda>_ _. Inr [ra_from_mg]))
       \<lparr>graph_user := (\<lambda>principal_id.
            if principal_id = PyStr ''p1''
            then Inr (PyStr ''Alice'', PyStr ''alice@example.com'')
            else Inl (ApiError ''not found''))\<rparr>"

text \<open>A tenant of \<open>n\<close> subscriptions \<^verbatim>\<open>s0\<close>, \<^verbatim>\<open>s1\<close>, ...\<close>

definition numbered_subs :: "nat \<Rightarrow> sub_obj list" where
  "numbered_subs n =
     map (\<lambda>i. \<lparr>so_id = PyStr (''/subscriptions/s'' @ str_nat i),
               so_subscription_id = PyStr (''s'' @ str_nat i),
               so_display_name = PyStr (''Subscription '' @ str_nat i),
               so_state = PyStr ''Enabled''\<rparr>) [0..<n]"

text \<open>\<^verbatim>\<open>--discover-subscriptions --output-path out\<close>\<close>

definition args_discover :: args where
  "args_discover = args_abc\<lparr>subscriptions := None, discover_subscriptions := True\<rparr>"


text \<open>A row whose display name holds the control character with code 1.\<close>

definition control_character_rows :: "pydict list" where
  "control_character_rows =
     [[(''principalId'', PyStr ''p1''), (''principalDisplayName'', PyStr [CHR 0x01]),
       (''principalUPNOrAppId'', PyStr ''alice@example.com'')]]"

text \<open>The tenant in which the role definitions and the role assignments of every scope
  cannot be listed.\<close>

definition tenant_denied :: env where
  "tenant_denied =
     (tenant [sub_abc] (\<lambda>_ _. Inl (ApiError ''denied'')))
       \<lparr>role_definitions_list := (\<lambda>_. Inl (ApiError ''denied''))\<rparr>"

section \<open>Scope classification\<close>

text \<open>
  C5. The classifier maps \<^verbatim>\<open>/providers/Microsoft.Management/managementGroups/mg1\<close> to
  ManagementGroup, \<^verbatim>\<open>/subscriptions/abc\<close> to Subscription with subscription id
  \<^verbatim>\<open>abc\<close>, and \<^verbatim>\<open>/subscriptions/abc/resourceGroups/rg1\<close> to ResourceGroup with
  subscription id \<^verbatim>\<open>abc\<close> and resource group \<^verbatim>\<open>rg1\<close>; the three fields of a record
  come from the queried scope string alone, whatever the provider's object says.
\<close>

theorem classify_scope_paths:
  "classify_scope ''/providers/Microsoft.Management/managementGroups/mg1''
     = (''ManagementGroup'', '''', '''')
   \<and> classify_scope ''/subscriptions/abc'' = (''Subscription'', ''abc'', '''')
   \<and> classify_scope ''/subscriptions/abc/resourceGroups/rg1'' = (''ResourceGroup'', ''abc'', ''rg1'')
   \<and> (getitem (assignment_row scope a) ''scopeType'',
       getitem (assignment_row scope a) ''subscriptionId'',
       getitem (assignment_row scope a) ''resourceGroup'')
      = (case classify_scope scope of (t, s, r) \<Rightarrow> (Inr (PyStr t), Inr (PyStr s), Inr (PyStr r)))"
proof -
  have 1: "classify_scope ''/providers/Microsoft.Management/managementGroups/mg1''
     = (''ManagementGroup'', '''', '''')"
    by code_simp
  have 2: "classify_scope ''/subscriptions/abc'' = (''Subscription'', ''abc'', '''')"
    by code_simp
  have 3: "classify_scope ''/subscriptions/abc/resourceGroups/rg1''
     = (''ResourceGroup'', ''abc'', ''rg1'')"
    by code_simp
  have 4: "(getitem (assignment_row scope a) ''scopeType'',
       getitem (assignment_row scope a) ''subscriptionId'',
       getitem (assignment_row scope a) ''resourceGroup'')
      = (case classify_scope scope of (t, s, r) \<Rightarrow> (Inr (PyStr t), Inr (PyStr s), Inr (PyStr r)))"
    by (simp add: assignment_row_def getitem_def split: prod.splits)
  from 1 2 3 4 show ?thesis by blast
qed

section \<open>Frame lemmas\<close>

lemma logged_files [simp]: "w_files (logged l m e w) = w_files w"
  and logged_dirs [simp]: "w_dirs (logged l m e w) = w_dirs w"
  and logged_calls [simp]: "w_calls (logged l m e w) = w_calls w"
  and logged_cache [simp]: "principal_cache (logged l m e w) = principal_cache w"
  by (simp_all add: logged_def)

lemma did_files [simp]: "w_files (did c w) = w_files w"
  and did_dirs [simp]: "w_dirs (did c w) = w_dirs w"
  and did_calls [simp]: "w_calls (did c w) = w_calls w @ [c]"
  and did_cache [simp]: "principal_cache (did c w) = principal_cache w"
  by (simp_all add: did_def)

lemma write_file_read [simp]:
  "map_of (w_files (write_file filename content w)) filename = Some content"
  by (simp add: write_file_def update_conv')

section \<open>The emitters on an empty collection\<close>

text \<open>
  C10. Called with an empty data list, each of \<^verbatim>\<open>write_csv\<close>, \<^verbatim>\<open>write_xlsx\<close>,
  \<^verbatim>\<open>write_markdown\<close> and \<^verbatim>\<open>write_json\<close> returns without creating or modifying any
  file: the files of the world are the same before and after, and so are the directories.
\<close>

theorem empty_data_writes_nothing:
  "w_files (write_csv env [] filename redact_flag w) = w_files w
   \<and> w_files (write_xlsx env [] filename redact_flag w) = w_files w
   \<and> w_files (write_markdown env [] filename top_n redact_flag w) = w_files w
   \<and> w_files (write_json env [] filename redact_flag w) = w_files w
   \<and> w_dirs (write_csv env [] filename redact_flag w) = w_dirs w
   \<and> w_dirs (write_xlsx env [] filename redact_flag w) = w_dirs w
   \<and> w_dirs (write_markdown env [] filename top_n redact_flag w) = w_dirs w
   \<and> w_dirs (write_json env [] filename redact_flag w) = w_dirs w"
  by (simp add: write_csv_def write_xlsx_def write_markdown_def write_json_def)

section \<open>Transitive expansion without confirmation\<close>

text \<open>
  C6, as stated: an invocation with \<^verbatim>\<open>--group-membership-mode transitive\<close> and without
  \<^verbatim>\<open>--confirm-large-scan\<close> ends with exit status 2. It does not: the status is 1.
\<close>

theorem transitive_exit_status_counterexample:
  "fst (main (tenant [sub_abc] (\<lambda>_ _. Inr []))
          (args_abc\<lparr>group_membership_mode := Transitive\<rparr>) initial_world) \<noteq> Exit 2"
  by (simp add: main_def discovery_def validate_arguments_def args_abc_def)

text \<open>
  C6, amended: every invocation with \<^verbatim>\<open>--group-membership-mode transitive\<close> and without
  \<^verbatim>\<open>--confirm-large-scan\<close> ends in \<^verbatim>\<open>validate_arguments\<close> with exit status 1, before any
  external call, log record, directory or file: the world is untouched.
\<close>

theorem transitive_without_confirmation_exits_1:
  assumes "group_membership_mode args = Transitive" and "\<not> confirm_large_scan args"
  shows "main env args w = (Exit 1, w)"
  using assms by (simp add: main_def discovery_def validate_arguments_def)

theorem transitive_without_confirmation_exits_1_witness:
  "group_membership_mode (args_abc\<lparr>group_membership_mode := Transitive\<rparr>) = Transitive
   \<and> \<not> confirm_large_scan (args_abc\<lparr>group_membership_mode := Transitive\<rparr>)
   \<and> main (tenant [sub_abc] (\<lambda>_ _. Inr []))
          (args_abc\<lparr>group_membership_mode := Transitive\<rparr>) initial_world = (Exit 1, initial_world)"
  using transitive_without_confirmation_exits_1
          [of "args_abc\<lparr>group_membership_mode := Transitive\<rparr>"
              "tenant [sub_abc] (\<lambda>_ _. Inr [])" initial_world]
  by (simp add: args_abc_def)

section \<open>The principal cache\<close>

lemma resolve_principal_hit:
  "map_of (principal_cache w) pid = Some r \<Longrightarrow> resolve_principal env pid t nr rd w = (r, w)"
  by (simp add: resolve_principal_def)

lemma graph_lookup_cache [simp]:
  "principal_cache (snd (graph_lookup env pid t w)) = principal_cache w"
  by (auto simp: graph_lookup_def split: option.splits sum.splits prod.splits)

lemma resolve_principal_stores:
  assumes "resolve_principal env pid t nr rd w = (r, w1)"
  shows "map_of (principal_cache w1) pid = Some r"
  using assms
  by (auto simp: resolve_principal_def update_conv' Let_def split: option.splits if_splits prod.splits)

lemma resolve_principal_miss_redacted:
  assumes "resolve_principal env pid t nr True w = (r, w1)"
      and "map_of (principal_cache w) pid = None"
  shows "r = (REDACTED, REDACTED)"
  using assms
  by (auto simp: resolve_principal_def Let_def split: option.splits if_splits prod.splits)

lemma graph_lookup_cache_eq:
  "graph_lookup env pid t w = (names, w') \<Longrightarrow> principal_cache w' = principal_cache w"
  using graph_lookup_cache[of env pid t w] by simp

text \<open>With redaction on, a cache that holds only redacted pairs stays so.\<close>

lemma resolve_principal_keeps_redacted:
  assumes "resolve_principal env pid t nr True w = (r, w1)"
      and "\<forall>k v. map_of (principal_cache w) k = Some v \<longrightarrow> v = (REDACTED, REDACTED)"
  shows "r = (REDACTED, REDACTED)
         \<and> (\<forall>k v. map_of (principal_cache w1) k = Some v \<longrightarrow> v = (REDACTED, REDACTED))"
proof (cases "map_of (principal_cache w) pid")
  case (Some c)
  with assms show ?thesis by (cases r) (auto simp: resolve_principal_def)
next
  case None
  obtain names w' where g: "graph_lookup env pid t w = (names, w')"
    by (cases "graph_lookup env pid t w")
  from assms(1) None g graph_lookup_cache_eq[OF g]
  have r: "r = (REDACTED, REDACTED)"
    and c: "principal_cache w1 = AList.update pid (REDACTED, REDACTED) (principal_cache w)"
    by (auto simp: resolve_principal_def Let_def split: if_splits)
  from c assms(2) show ?thesis
    using r by (auto simp: update_conv' split: if_splits)
qed

text \<open>
  C4. After a call of \<^verbatim>\<open>resolve_principal\<close> for a principal id has returned the pair
  \<open>r\<close>, a second call for the same id returns \<open>r\<close> again and leaves the world as it
  is (no directory call is added to the trace), whatever principal type, flags and
  directory the second call is given: the cache is keyed by the id alone. The cache
  holds \<open>r\<close> under the id, and when the first call was asked to redact and did not
  find the id cached, \<open>r\<close> is the redacted pair. When it was asked to redact and
  the cache held redacted pairs only, as in a run that redacts from its start, \<open>r\<close> is
  the redacted pair and the cache still holds redacted pairs only.
\<close>

theorem resolve_principal_cached:
  assumes "resolve_principal env pid ptype no_resolve redact_flag w = (r, w1)"
  shows "resolve_principal env' pid ptype' no_resolve' redact_flag' w1 = (r, w1)
         \<and> map_of (principal_cache w1) pid = Some r
         \<and> (redact_flag \<and> map_of (principal_cache w) pid = None \<longrightarrow> r = (REDACTED, REDACTED))
         \<and> (redact_flag
              \<and> (\<forall>k v. map_of (principal_cache w) k = Some v \<longrightarrow> v = (REDACTED, REDACTED))
            \<longrightarrow> r = (REDACTED, REDACTED)
              \<and> (\<forall>k v. map_of (principal_cache w1) k = Some v \<longrightarrow> v = (REDACTED, REDACTED)))"
proof -
  have stored: "map_of (principal_cache w1) pid = Some r"
    using assms by (rule resolve_principal_stores)
  then have again: "resolve_principal env' pid ptype' no_resolve' redact_flag' w1 = (r, w1)"
    by (rule resolve_principal_hit)
  have red: "redact_flag \<and> map_of (principal_cache w) pid = None \<longrightarrow> r = (REDACTED, REDACTED)"
  proof (intro impI, elim conjE)
    assume "redact_flag" and "map_of (principal_cache w) pid = None"
    with assms show "r = (REDACTED, REDACTED)"
      using resolve_principal_miss_redacted[of env pid ptype no_resolve w r w1] by simp
  qed
  have inv: "redact_flag
              \<and> (\<forall>k v. map_of (principal_cache w) k = Some v \<longrightarrow> v = (REDACTED, REDACTED))
            \<longrightarrow> r = (REDACTED, REDACTED)
              \<and> (\<forall>k v. map_of (principal_cache w1) k = Some v \<longrightarrow> v = (REDACTED, REDACTED))"
  proof (intro impI, elim conjE)
    assume "redact_flag"
      and "\<forall>k v. map_of (principal_cache w) k = Some v \<longrightarrow> v = (REDACTED, REDACTED)"
    with assms show "r = (REDACTED, REDACTED)
              \<and> (\<forall>k v. map_of (principal_cache w1) k = Some v \<longrightarrow> v = (REDACTED, REDACTED))"
      using resolve_principal_keeps_redacted[of env pid ptype no_resolve w r w1] by simp
  qed
  from stored again red inv show ?thesis by (intro conjI)
qed

theorem resolve_principal_cached_witness:
  "resolve_principal tenant_with_alice (PyStr ''p1'') (PyStr ''User'') False True initial_world
     = ((REDACTED, REDACTED),
        initial_world\<lparr>w_calls := [GraphGetUser (PyStr ''p1'')],
                       principal_cache := [(PyStr ''p1'', (REDACTED, REDACTED))]\<rparr>)
   \<and> resolve_principal (tenant [] (\<lambda>_ _. Inr [])) (PyStr ''p1'') (PyStr ''Group'') True False
        (initial_world\<lparr>w_calls := [GraphGetUser (PyStr ''p1'')],
                        principal_cache := [(PyStr ''p1'', (REDACTED, REDACTED))]\<rparr>)
     = ((REDACTED, REDACTED),
        initial_world\<lparr>w_calls := [GraphGetUser (PyStr ''p1'')],
                       principal_cache := [(PyStr ''p1'', (REDACTED, REDACTED))]\<rparr>)"
proof -
  have first_call:
    "resolve_principal tenant_with_alice (PyStr ''p1'') (PyStr ''User'') False True initial_world
     = ((REDACTED, REDACTED),
        initial_world\<lparr>w_calls := [GraphGetUser (PyStr ''p1'')],
                       principal_cache := [(PyStr ''p1'', (REDACTED, REDACTED))]\<rparr>)"
    by code_simp
  from resolve_principal_cached
         [OF first_call, of "tenant [] (\<lambda>_ _. Inr [])" "PyStr ''Group''" True False]
  show ?thesis using first_call by simp
qed

section \<open>Redaction in the emitters\<close>

lemma has_key_iff: "has_key d k \<longleftrightarrow> k \<in> set (keys d)"
  by (simp add: has_key_def keys_def map_of_eq_None_iff)

lemma keys_update_present: "has_key d k \<Longrightarrow> keys (AList.update k v d) = keys d"
  by (simp add: has_key_iff keys_def update_keys)

lemma redact_row_keys [simp]: "keys (redact_row row) = keys row"
  by (simp add: redact_row_def keys_update_present has_key_iff)











text \<open>The path on which nothing is written: a control character in a cell.\<close>

lemma write_xlsx_control_character:
  "write_xlsx (tenant [] (\<lambda>_ _. Inr [])) control_character_rows ''out/rows.xlsx'' True initial_world
     = initial_world\<lparr>w_log := [(ERROR, ''Failed to write XLSX out/rows.xlsx: '',
                                  Some (IllegalCharacterError [CHR 0x01]))]\<rparr>"
  by code_simp







section \<open>The Markdown footer\<close>



section \<open>The safety rail\<close>

lemma validate_arguments_confirm:
  "validate_arguments args0 = Inr args \<Longrightarrow> confirm_large_scan args = confirm_large_scan args0"
  by (auto simp: validate_arguments_def split: if_splits option.splits)

lemma run_bootstrap_frame:
  "run_bootstrap env args w = (r, w') \<Longrightarrow> w_files w' = w_files w \<and> w_dirs w' = w_dirs w"
  by (auto simp: run_bootstrap_def split: if_splits)

lemma preflight_check_frame:
  "preflight_check env w = (r, w') \<Longrightarrow> w_files w' = w_files w \<and> w_dirs w' = w_dirs w"
  by (auto simp: preflight_check_def Let_def split: option.splits)

lemma get_management_groups_frame:
  "get_management_groups env w = (r, w') \<Longrightarrow> w_files w' = w_files w \<and> w_dirs w' = w_dirs w"
  by (auto simp: get_management_groups_def Let_def split: sum.splits)

lemma get_subscriptions_frame:
  "get_subscriptions env ids w = (r, w') \<Longrightarrow> w_files w' = w_files w \<and> w_dirs w' = w_dirs w"
  by (auto simp: get_subscriptions_def Let_def split: sum.splits)

lemma get_resource_groups_frame:
  "get_resource_groups env sub_id w = (r, w') \<Longrightarrow> w_files w' = w_files w \<and> w_dirs w' = w_dirs w"
  by (auto simp: get_resource_groups_def Let_def split: sum.splits)

lemma enumerate_resource_groups_frame:
  "enumerate_resource_groups env args subs acc w = Inr (r, w')
     \<Longrightarrow> w_files w' = w_files w \<and> w_dirs w' = w_dirs w"
proof (induction subs arbitrary: acc w)
  case Nil
  then show ?case by simp
next
  case (Cons sub rest)
  from Cons.prems obtain sub_id where k: "getitem sub ''subscription_id'' = Inr sub_id"
    by (cases "getitem sub ''subscription_id''") auto
  obtain rgs w1 where g: "get_resource_groups env sub_id w = (rgs, w1)"
    by (cases "get_resource_groups env sub_id w")
  note f = get_resource_groups_frame[OF g]
  show ?case
  proof (cases "limit_reached (limit args) (length (AList.update sub_id rgs acc))")
    case True
    with Cons.prems k g f show ?thesis by simp
  next
    case False
    with Cons.prems k g
    have "enumerate_resource_groups env args rest (AList.update sub_id rgs acc) w1 = Inr (r, w')"
      by simp
    from Cons.IH[OF this] f show ?thesis by simp
  qed
qed

text \<open>A run that reaches the safety rail has written nothing and created no directory,
  and argument validation has not touched the confirmation flag.\<close>

lemma discovery_frame:
  assumes "discovery env args0 w0 = Inr (args, ct, mgs, subs, rgs, w)"
  shows "w_files w = w_files w0 \<and> w_dirs w = w_dirs w0
         \<and> confirm_large_scan args = confirm_large_scan args0"
proof -
  from assms obtain a where v: "validate_arguments args0 = Inr a"
    by (cases "validate_arguments args0") (auto simp: discovery_def)
  obtain b w1 where rb: "run_bootstrap env a w0 = (b, w1)" by (cases "run_bootstrap env a w0")
  obtain c w2 where pf: "preflight_check env w1 = (c, w2)" by (cases "preflight_check env w1")
  obtain m wm where mg: "get_management_groups env w2 = (m, wm)"
    by (cases "get_management_groups env w2")
  define w3 where "w3 = (if traverse_management_groups a
      then (if m = [] then logged WARNING ''No management groups found or access denied'' None wm
            else wm) else w2)"
  have f3: "w_files w3 = w_files w0 \<and> w_dirs w3 = w_dirs w0"
    using run_bootstrap_frame[OF rb] preflight_check_frame[OF pf] get_management_groups_frame[OF mg]
    by (simp add: w3_def)
  define ids where "ids = (if given (subscriptions a) then subscriptions a else None)"
  obtain s w4g where gs: "get_subscriptions env ids w3 = (s, w4g)"
    by (cases "get_subscriptions env ids w3")
  note f4 = get_subscriptions_frame[OF gs]
  from assms v rb pf mg gs f3 f4 show ?thesis
    unfolding discovery_def
    by (auto simp: w3_def ids_def Let_def validate_arguments_confirm
          split: option.splits if_splits sum.splits prod.splits
          dest!: enumerate_resource_groups_frame)
qed

text \<open>
  C2. Take a run that got as far as the safety rail, having discovered the
  subscriptions \<open>subs\<close> and the resource groups \<open>rgs\<close>, more than 25 of the former or
  more than 200 of the latter. Without \<^verbatim>\<open>--confirm-large-scan\<close> the process ends with
  exit status 2 and the files and directories are what they were before the run. With
  the flag the rail lets the run through: the threshold check answers \<open>True\<close> and
  \<^verbatim>\<open>main\<close> goes on with the export.
\<close>

theorem safety_rail:
  assumes "discovery env args0 w0 = Inr (args, cred_type, mgs, subs, rgs, w)"
      and "25 < length subs \<or> 200 < total_rg_count rgs"
  shows "(\<not> confirm_large_scan args0 \<longrightarrow>
            fst (main env args0 w0) = Exit 2
            \<and> w_files (snd (main env args0 w0)) = w_files w0
            \<and> w_dirs (snd (main env args0 w0)) = w_dirs w0)
       \<and> (confirm_large_scan args0 \<longrightarrow>
            check_large_tenant_thresholds subs rgs args w = (True, w)
            \<and> main env args0 w0 = export env args cred_type mgs subs rgs w)"
proof -
  note f = discovery_frame[OF assms(1)]
  show ?thesis
  proof (cases "confirm_large_scan args0")
    case True
    with f have c: "check_large_tenant_thresholds subs rgs args w = (True, w)"
      by (simp add: check_large_tenant_thresholds_def Let_def)
    with True assms(1) show ?thesis by (simp add: main_def)
  next
    case False
    with f assms(2) obtain w1 where
      c: "check_large_tenant_thresholds subs rgs args w = (False, w1)"
      and f1: "w_files w1 = w_files w" "w_dirs w1 = w_dirs w"
      by (auto simp: check_large_tenant_thresholds_def Let_def
            LARGE_SUBSCRIPTION_THRESHOLD_def LARGE_RESOURCE_GROUP_THRESHOLD_def)
    with False assms(1) f show ?thesis by (simp add: main_def)
  qed
qed

theorem safety_rail_witness:
  "discovery (tenant (numbered_subs 26) (\<lambda>_ _. Inr [])) args_discover initial_world
     = Inr (args_discover, ''DefaultAzureCredential'', [],
            map subscription_row (numbered_subs 26), [],
            initial_world\<lparr>w_calls := [TryCredential ''DefaultAzureCredential'', ListSubscriptions]\<rparr>)
   \<and> 25 < length (map subscription_row (numbered_subs 26))
   \<and> \<not> confirm_large_scan args_discover
   \<and> fst (main (tenant (numbered_subs 26) (\<lambda>_ _. Inr [])) args_discover initial_world) = Exit 2
   \<and> w_files (snd (main (tenant (numbered_subs 26) (\<lambda>_ _. Inr [])) args_discover initial_world)) = []
   \<and> w_dirs (snd (main (tenant (numbered_subs 26) (\<lambda>_ _. Inr [])) args_discover initial_world)) = []
   \<and> discovery (tenant (numbered_subs 26) (\<lambda>_ _. Inr []))
        (args_discover\<lparr>confirm_large_scan := True\<rparr>) initial_world
     = Inr (args_discover\<lparr>confirm_large_scan := True\<rparr>, ''DefaultAzureCredential'', [],
            map subscription_row (numbered_subs 26), [],
            initial_world\<lparr>w_calls := [TryCredential ''DefaultAzureCredential'', ListSubscriptions]\<rparr>)
   \<and> confirm_large_scan (args_discover\<lparr>confirm_large_scan := True\<rparr>)
   \<and> main (tenant (numbered_subs 26) (\<lambda>_ _. Inr []))
        (args_discover\<lparr>confirm_large_scan := True\<rparr>) initial_world
     = export (tenant (numbered_subs 26) (\<lambda>_ _. Inr []))
         (args_discover\<lparr>confirm_large_scan := True\<rparr>) ''DefaultAzureCredential'' []
         (map subscription_row (numbered_subs 26)) []
         (initial_world\<lparr>w_calls := [TryCredential ''DefaultAzureCredential'', ListSubscriptions]\<rparr>)"
proof -
  have d1: "discovery (tenant (numbered_subs 26) (\<lambda>_ _. Inr [])) args_discover initial_world
     = Inr (args_discover, ''DefaultAzureCredential'', [],
            map subscription_row (numbered_subs 26), [],
            initial_world\<lparr>w_calls := [TryCredential ''DefaultAzureCredential'', ListSubscriptions]\<rparr>)"
    by code_simp
  have d2: "discovery (tenant (numbered_subs 26) (\<lambda>_ _. Inr []))
        (args_discover\<lparr>confirm_large_scan := True\<rparr>) initial_world
     = Inr (args_discover\<lparr>confirm_large_scan := True\<rparr>, ''DefaultAzureCredential'', [],
            map subscription_row (numbered_subs 26), [],
            initial_world\<lparr>w_calls := [TryCredential ''DefaultAzureCredential'', ListSubscriptions]\<rparr>)"
    by code_simp
  have n: "25 < length (map subscription_row (numbered_subs 26))"
    by (simp add: numbered_subs_def)
  have c1: "\<not> confirm_large_scan args_discover"
    by (simp add: args_discover_def args_abc_def)
  have c2: "confirm_large_scan (args_discover\<lparr>confirm_large_scan := True\<rparr>)" by simp
  have n': "25 < length (map subscription_row (numbered_subs 26))
            \<or> 200 < total_rg_count []" using n by simp
  have i: "w_files initial_world = [] \<and> w_dirs initial_world = []"
    by (simp add: initial_world_def)
  note t1 = safety_rail[OF d1 n', THEN conjunct1, rule_format, OF c1]
  note t2 = safety_rail[OF d2 n', THEN conjunct2, rule_format, OF c2]
  show ?thesis
    using d1 n c1 t1 d2 c2 t2 i by simp
qed

section \<open>The scope field of the merged assignments\<close>

lemma get_role_assignments_rows:
  assumes "get_role_assignments env scope inc w = (rows, w')"
  shows "(\<forall>row\<in>set rows. getitem row ''scope'' = Inr (PyStr scope))
         \<and> w_calls w' = w_calls w @ [ListRoleAssignments scope inc]"
  using assms
  by (auto simp: get_role_assignments_def Let_def assignment_row_def getitem_def
        split: sum.splits prod.splits)

lemma get_role_definitions_calls:
  assumes "get_role_definitions env scope w = (defs, w')"
  shows "w_calls w' = w_calls w @ [ListRoleDefinitions scope]"
  using assms by (auto simp: get_role_definitions_def Let_def split: sum.splits)

lemma mark_inherited_same:
  "\<forall>row\<in>set rows. getitem row ''scope'' = Inr (PyStr scope) \<Longrightarrow> mark_inherited scope rows = Inr rows"
  by (induction rows) simp_all

lemma scopes_queried_extend:
  assumes "scopes_queried n (st, w)"
      and "w_calls w' = w_calls w @ cs"
      and "all_role_assignments st' = all_role_assignments st @ rows"
      and "\<forall>row\<in>set rows. \<exists>q. getitem row ''scope'' = Inr (PyStr q) \<and> ListRoleAssignments q True \<in> set cs"
  shows "scopes_queried n (st', w')"
  using assms unfolding scopes_queried_def by fastforce

lemma scopes_queried_same:
  assumes "scopes_queried n (st, w)"
      and "w_calls w' = w_calls w"
      and "all_role_assignments st' = all_role_assignments st"
  shows "scopes_queried n (st', w')"
  using assms unfolding scopes_queried_def by simp

lemma process_mg_queried:
  assumes "process_mg env args mg (st, w) = (fl, st', w')" and "scopes_queried n (st, w)"
  shows "scopes_queried n (st', w')"
proof (cases "getitem mg ''name''")
  case (Inl e)
  with assms show ?thesis by (simp add: process_mg_def)
next
  case (Inr mg_id)
  define scope where "scope = ''/providers/Microsoft.Management/managementGroups/'' @ py_str mg_id"
  obtain role_defs w1 where rd: "get_role_definitions env scope w = (role_defs, w1)"
    by (cases "get_role_definitions env scope w")
  obtain rows w2 where ra: "get_role_assignments env scope True w1 = (rows, w2)"
    by (cases "get_role_assignments env scope True w1")
  note r = get_role_assignments_rows[OF ra]
  have mi: "mark_inherited scope rows = Inr rows" using r by (simp add: mark_inherited_same)
  from assms(1) Inr rd ra mi
  have st': "all_role_assignments st' = all_role_assignments st @ rows" and w': "w' = w2"
    by (auto simp: process_mg_def scope_def Let_def)
  have calls: "w_calls w' = w_calls w @ [ListRoleDefinitions scope, ListRoleAssignments scope True]"
    using w' r get_role_definitions_calls[OF rd] by simp
  show ?thesis
    by (rule scopes_queried_extend[OF assms(2) calls st']) (use r in auto)
qed

lemma mg_failed_queried:
  "scopes_queried n stw \<Longrightarrow> scopes_queried n (mg_failed mg e stw)"
  by (cases stw) (simp add: mg_failed_def scopes_queried_def Let_def)

lemma mg_loop_queried:
  "scopes_queried n stw \<Longrightarrow> scopes_queried n (mg_loop env args mgs stw)"
proof (induction mgs arbitrary: stw)
  case Nil
  then show ?case by simp
next
  case (Cons mg rest)
  obtain st w where stw: "stw = (st, w)" by (cases stw)
  obtain fl st' w' where p: "process_mg env args mg (st, w) = (fl, st', w')"
    by (cases "process_mg env args mg (st, w)")
  have q: "scopes_queried n (st', w')"
    using process_mg_queried[OF p] Cons.prems stw by simp
  show ?case
  proof (cases fl)
    case Next
    with p stw Cons.IH[OF q] show ?thesis by simp
  next
    case Break
    with p stw q show ?thesis by simp
  next
    case (Raised e)
    with p stw Cons.IH[OF mg_failed_queried[OF q]] show ?thesis by simp
  qed
qed

lemma process_rg_queried:
  assumes "process_rg env args sub_id rg (st, w) = (fl, st', w')" and "scopes_queried n (st, w)"
  shows "scopes_queried n (st', w')"
proof (cases "getitem rg ''name''")
  case (Inl e)
  with assms show ?thesis by (simp add: process_rg_def)
next
  case (Inr rg_name)
  define scope where
    "scope = ''/subscriptions/'' @ py_str sub_id @ ''/resourceGroups/'' @ py_str rg_name"
  obtain rows w1 where ra: "get_role_assignments env scope True w = (rows, w1)"
    by (cases "get_role_assignments env scope True w")
  note r = get_role_assignments_rows[OF ra]
  have mi: "mark_inherited scope rows = Inr rows" using r by (simp add: mark_inherited_same)
  from assms(1) Inr ra mi
  have st': "all_role_assignments st' = all_role_assignments st @ rows" and w': "w' = w1"
    by (auto simp: process_rg_def scope_def Let_def)
  have calls: "w_calls w' = w_calls w @ [ListRoleAssignments scope True]"
    using w' r by simp
  show ?thesis
    by (rule scopes_queried_extend[OF assms(2) calls st']) (use r in auto)
qed

lemma rg_failed_queried:
  "scopes_queried n stw \<Longrightarrow> scopes_queried n (rg_failed sub_id rg e stw)"
  by (cases stw) (simp add: rg_failed_def scopes_queried_def Let_def)

lemma rg_loop_queried:
  "scopes_queried n stw \<Longrightarrow> scopes_queried n (rg_loop env args sub_id rgs stw)"
proof (induction rgs arbitrary: stw)
  case Nil
  then show ?case by simp
next
  case (Cons rg rest)
  obtain st w where stw: "stw = (st, w)" by (cases stw)
  obtain fl st' w' where p: "process_rg env args sub_id rg (st, w) = (fl, st', w')"
    by (cases "process_rg env args sub_id rg (st, w)")
  have q: "scopes_queried n (st', w')"
    using process_rg_queried[OF p] Cons.prems stw by simp
  show ?case
  proof (cases fl)
    case Next
    with p stw Cons.IH[OF q] show ?thesis by simp
  next
    case Break
    with p stw q show ?thesis by simp
  next
    case (Raised e)
    with p stw Cons.IH[OF rg_failed_queried[OF q]] show ?thesis by simp
  qed
qed

lemma process_sub_queried:
  assumes "process_sub env args rgs_per_sub sub (st, w) = (fl, st', w')"
      and "scopes_queried n (st, w)"
  shows "scopes_queried n (st', w')"
proof (cases "getitem sub ''subscription_id''")
  case (Inl e)
  with assms show ?thesis by (simp add: process_sub_def)
next
  case (Inr sub_id)
  define scope where "scope = ''/subscriptions/'' @ py_str sub_id"
  obtain role_defs w1 where rd: "get_role_definitions env scope w = (role_defs, w1)"
    by (cases "get_role_definitions env scope w")
  obtain rows w2 where ra: "get_role_assignments env scope True w1 = (rows, w2)"
    by (cases "get_role_assignments env scope True w1")
  note r = get_role_assignments_rows[OF ra]
  have mi: "mark_inherited scope rows = Inr rows" using r by (simp add: mark_inherited_same)
  define st2 where
    "st2 = st\<lparr>all_role_definitions := all_role_definitions st @ role_defs,
              all_role_assignments := all_role_assignments st @ rows,
              n_subscriptions := n_subscriptions st + 1\<rparr>"
  have calls: "w_calls w2 = w_calls w @ [ListRoleDefinitions scope, ListRoleAssignments scope True]"
    using r get_role_definitions_calls[OF rd] by simp
  have q2: "scopes_queried n (st2, w2)"
    by (rule scopes_queried_extend[OF assms(2) calls, where rows = rows])
       (use r in \<open>auto simp: st2_def\<close>)
  define stw3 where
    "stw3 = (if include_resources args
             then (case map_of rgs_per_sub sub_id of
                     Some rgs \<Rightarrow> rg_loop env args sub_id rgs (st2, w2)
                   | None \<Rightarrow> (st2, w2))
             else (st2, w2))"
  have q3: "scopes_queried n stw3"
    using q2 rg_loop_queried[OF q2] by (auto simp: stw3_def split: option.splits)
  from assms(1) Inr rd ra mi have "(st', w') = stw3"
    unfolding stw3_def st2_def
    by (auto simp: process_sub_def scope_def Let_def split: prod.splits option.splits)
  with q3 show ?thesis by simp
qed

lemma sub_failed_queried:
  "scopes_queried n stw \<Longrightarrow> scopes_queried n (sub_failed sub e stw)"
  by (cases stw) (simp add: sub_failed_def scopes_queried_def Let_def)

lemma sub_loop_queried:
  "scopes_queried n stw \<Longrightarrow> scopes_queried n (sub_loop env args rgs_per_sub subs stw)"
proof (induction subs arbitrary: stw)
  case Nil
  then show ?case by simp
next
  case (Cons sub rest)
  obtain st w where stw: "stw = (st, w)" by (cases stw)
  obtain fl st' w' where p: "process_sub env args rgs_per_sub sub (st, w) = (fl, st', w')"
    by (cases "process_sub env args rgs_per_sub sub (st, w)")
  have q: "scopes_queried n (st', w')"
    using process_sub_queried[OF p] Cons.prems stw by simp
  show ?case
  proof (cases fl)
    case Next
    with p stw Cons.IH[OF q] show ?thesis by simp
  next
    case Break
    with p stw q show ?thesis by simp
  next
    case (Raised e)
    with p stw Cons.IH[OF sub_failed_queried[OF q]] show ?thesis by simp
  qed
qed

lemma aggregate_queried:
  "scopes_queried (length (w_calls w)) (aggregate env args mgs subs rgs_per_sub w)"
proof -
  let ?st0 = "\<lparr>all_role_definitions = [], all_role_assignments = [],
                n_managementGroups = 0, n_subscriptions = 0, n_resourceGroups = 0,
                skipped = [], error_list = []\<rparr>"
  have q0: "scopes_queried (length (w_calls w)) (?st0, w)"
    by (simp add: scopes_queried_def)
  show ?thesis
    unfolding aggregate_def Let_def
    by (intro sub_loop_queried) (simp add: q0 mg_loop_queried)
qed

lemma getitem_update_other: "k \<noteq> k' \<Longrightarrow> getitem (AList.update k' v d) k = getitem d k"
  by (simp add: getitem_def update_conv')

lemma getitem_dict_update_other:
  "k \<notin> fst ` set e \<Longrightarrow> getitem (dict_update d e) k = getitem d k"
  unfolding dict_update_def
  by (induction e arbitrary: d) (auto simp: getitem_update_other)

lemma first_member_info_keys:
  "first_member_info args m = Inr info \<Longrightarrow>
     fst ` set info = {''memberPrincipalId'', ''memberType'', ''memberDisplayName'', ''memberUPN''}"
  by (auto simp: first_member_info_def split: sum.splits if_splits)

text \<open>The keys the enrichment writes.\<close>

lemma resolve_one_other:
  assumes "resolve_one env args a w = Inr (a', w')"
      and "k \<noteq> ''principalDisplayName''" and "k \<noteq> ''principalUPNOrAppId''"
  shows "getitem a' k = getitem a k"
  using assms
  by (auto simp: resolve_one_def getitem_update_other split: sum.splits prod.splits)

lemma resolve_all_other:
  assumes "resolve_all env args as w = Inr (as', w')"
      and "k \<noteq> ''principalDisplayName''" and "k \<noteq> ''principalUPNOrAppId''"
  shows "map (\<lambda>row. getitem row k) as' = map (\<lambda>row. getitem row k) as"
  using assms(1)
proof (induction as arbitrary: as' w w')
  case Nil
  then show ?case by simp
next
  case (Cons a rest)
  from Cons.prems obtain a1 w1 where o: "resolve_one env args a w = Inr (a1, w1)"
    by (cases "resolve_one env args a w") auto
  from Cons.prems o obtain rest1 w2 where r: "resolve_all env args rest w1 = Inr (rest1, w2)"
    by (cases "resolve_all env args rest w1") auto
  from Cons.prems o r have "as' = a1 # rest1" by simp
  with Cons.IH[OF r] resolve_one_other[OF o assms(2,3)] show ?case by simp
qed

lemma expand_one_other:
  assumes "expand_one env args a w = Inr (a', w')"
      and "k \<notin> {''memberCount'', ''memberPrincipalId'', ''memberType'',
                 ''memberDisplayName'', ''memberUPN''}"
  shows "getitem a' k = getitem a k"
proof -
  have u: "\<And>v. getitem (AList.update ''memberCount'' v a) k = getitem a k"
    using assms(2) by (simp add: getitem_update_other)
  have d: "\<And>v m info. first_member_info args m = Inr info \<Longrightarrow>
             getitem (dict_update (AList.update ''memberCount'' v a) info) k = getitem a k"
    using assms(2) u by (simp add: getitem_dict_update_other first_member_info_keys)
  from assms(1) show ?thesis
    by (auto simp: expand_one_def Let_def u d
          split: sum.splits prod.splits if_splits list.splits)
qed

lemma expand_all_other:
  assumes "expand_all env args as w = Inr (as', w')"
      and "k \<notin> {''memberCount'', ''memberPrincipalId'', ''memberType'',
                 ''memberDisplayName'', ''memberUPN''}"
  shows "map (\<lambda>row. getitem row k) as' = map (\<lambda>row. getitem row k) as"
  using assms(1)
proof (induction as arbitrary: as' w w')
  case Nil
  then show ?case by simp
next
  case (Cons a rest)
  from Cons.prems obtain a1 w1 where o: "expand_one env args a w = Inr (a1, w1)"
    by (cases "expand_one env args a w") auto
  from Cons.prems o obtain rest1 w2 where r: "expand_all env args rest w1 = Inr (rest1, w2)"
    by (cases "expand_all env args rest w1") auto
  from Cons.prems o r have "as' = a1 # rest1" by simp
  with Cons.IH[OF r] expand_one_other[OF o assms(2)] show ?case by simp
qed

text \<open>Enrichment leaves \<^verbatim>\<open>scope\<close> and \<^verbatim>\<open>inherited\<close> as the aggregation set them.\<close>

lemma enrich_other:
  assumes "enrich env args as w = Inr (as', w')"
      and "k \<notin> {''principalDisplayName'', ''principalUPNOrAppId'', ''memberCount'',
                 ''memberPrincipalId'', ''memberType'', ''memberDisplayName'', ''memberUPN''}"
  shows "map (\<lambda>row. getitem row k) as' = map (\<lambda>row. getitem row k) as"
proof -
  define r where "r = (if \<not> no_resolve_principals args \<and> as \<noteq> []
           then resolve_all env args as w else Inr (as, w))"
  from assms(1) obtain as1 w1 where r1: "r = Inr (as1, w1)"
    by (cases r) (auto simp: enrich_def r_def)
  have s1: "map (\<lambda>row. getitem row k) as1 = map (\<lambda>row. getitem row k) as"
    using r1 assms(2) resolve_all_other[of env args as w as1 w1 k]
    by (auto simp: r_def split: if_splits)
  have s2: "map (\<lambda>row. getitem row k) as' = map (\<lambda>row. getitem row k) as1"
    using assms r1 expand_all_other[of env args as1 w1 as' w' k]
    by (auto simp: enrich_def r_def[symmetric] split: if_splits)
  from s1 s2 show ?thesis by simp
qed

text \<open>
  C9. Every record \<^verbatim>\<open>get_role_assignments\<close> produces carries the queried scope string in
  its \<^verbatim>\<open>scope\<close> field, whatever scope the provider reports for the assignment. So every
  record of the merged collection carries a scope that the aggregation queried for
  assignments, inherited ones included, and filling in principal names and group members
  afterwards does not change the field.
\<close>

theorem scope_field_is_queried_scope:
  "(\<forall>row \<in> set (fst (get_role_assignments env scope include_inherited w)).
       getitem row ''scope'' = Inr (PyStr scope))
   \<and> (\<forall>row \<in> set (all_role_assignments (fst (aggregate env args mgs subs rgs w))).
        \<exists>queried. getitem row ''scope'' = Inr (PyStr queried)
          \<and> ListRoleAssignments queried True
              \<in> set (drop (length (w_calls w)) (w_calls (snd (aggregate env args mgs subs rgs w)))))
   \<and> (\<forall>assignments w1 assignments' w2.
        enrich env args assignments w1 = Inr (assignments', w2)
          \<longrightarrow> map (\<lambda>row. getitem row ''scope'') assignments'
                = map (\<lambda>row. getitem row ''scope'') assignments)"
proof (intro conjI)
  show "\<forall>row \<in> set (fst (get_role_assignments env scope include_inherited w)).
       getitem row ''scope'' = Inr (PyStr scope)"
    using get_role_assignments_rows[of env scope include_inherited w]
    by (cases "get_role_assignments env scope include_inherited w") simp
  show "\<forall>row \<in> set (all_role_assignments (fst (aggregate env args mgs subs rgs w))).
        \<exists>queried. getitem row ''scope'' = Inr (PyStr queried)
          \<and> ListRoleAssignments queried True
              \<in> set (drop (length (w_calls w)) (w_calls (snd (aggregate env args mgs subs rgs w))))"
    using aggregate_queried[of w env args mgs subs rgs]
    by (cases "aggregate env args mgs subs rgs w") (simp add: scopes_queried_def)
  show "\<forall>assignments w1 assignments' w2.
        enrich env args assignments w1 = Inr (assignments', w2)
          \<longrightarrow> map (\<lambda>row. getitem row ''scope'') assignments'
                = map (\<lambda>row. getitem row ''scope'') assignments"
    using enrich_other[where k = "''scope''"] by simp
qed

theorem scope_field_is_queried_scope_witness:
  "assignment_row ''/subscriptions/abc'' ra_from_mg
     \<in> set (fst (get_role_assignments (tenant [sub_abc] (\<lambda>_ _. Inr [ra_from_mg]))
                   ''/subscriptions/abc'' True initial_world))
   \<and> getitem (assignment_row ''/subscriptions/abc'' ra_from_mg) ''scope''
       = Inr (PyStr ''/subscriptions/abc'')
   \<and> ra_scope ra_from_mg \<noteq> ''/subscriptions/abc''
   \<and> assignment_row ''/subscriptions/abc'' ra_from_mg
     \<in> set (all_role_assignments (fst (aggregate (tenant [sub_abc] (\<lambda>_ _. Inr [ra_from_mg]))
                   args_abc [] [subscription_row sub_abc] [] initial_world)))
   \<and> (\<exists>queried. getitem (assignment_row ''/subscriptions/abc'' ra_from_mg) ''scope''
                    = Inr (PyStr queried)
          \<and> ListRoleAssignments queried True
              \<in> set (drop (length (w_calls initial_world))
                  (w_calls (snd (aggregate (tenant [sub_abc] (\<lambda>_ _. Inr [ra_from_mg])) args_abc []
                     [subscription_row sub_abc] [] initial_world)))))"
proof -
  have e1: "assignment_row ''/subscriptions/abc'' ra_from_mg
     \<in> set (fst (get_role_assignments (tenant [sub_abc] (\<lambda>_ _. Inr [ra_from_mg]))
                   ''/subscriptions/abc'' True initial_world))"
    by (simp add: get_role_assignments_def tenant_def Let_def)
  have e2: "assignment_row ''/subscriptions/abc'' ra_from_mg
     \<in> set (all_role_assignments (fst (aggregate (tenant [sub_abc] (\<lambda>_ _. Inr [ra_from_mg]))
                   args_abc [] [subscription_row sub_abc] [] initial_world)))"
    by code_simp
  have e3: "ra_scope ra_from_mg \<noteq> ''/subscriptions/abc''"
    by (simp add: ra_from_mg_def)
  note t = scope_field_is_queried_scope
             [of "tenant [sub_abc] (\<lambda>_ _. Inr [ra_from_mg])" "''/subscriptions/abc''" True
                 initial_world args_abc "[]" "[subscription_row sub_abc]" "[]"]
  show ?thesis
    using e1 t[THEN conjunct1, THEN bspec, OF e1] e3 e2
          t[THEN conjunct2, THEN conjunct1, THEN bspec, OF e2]
    by (intro conjI)
qed

section \<open>The inherited flag\<close>

text \<open>The marking loop changes nothing in what \<^verbatim>\<open>get_role_assignments\<close> returns.\<close>

lemma mark_inherited_no_effect:
  "mark_inherited scope (fst (get_role_assignments env scope include_inherited w))
     = Inr (fst (get_role_assignments env scope include_inherited w))"
  using get_role_assignments_rows[of env scope include_inherited w]
  by (cases "get_role_assignments env scope include_inherited w") (simp add: mark_inherited_same)

lemma inherited_is_provider_metadata:
  "getitem (assignment_row scope a) ''inherited''
     = Inr (case ra_additional_properties a of
              None \<Rightarrow> PyBool False
            | Some props \<Rightarrow> if props = [] then PyBool False
                            else dict_get props ''inherited'' (PyBool False))"
  by (simp add: assignment_row_def getitem_def split: prod.splits)

text \<open>
  C1 asks that a returned assignment whose own scope differs from the queried scope is
  marked inherited in the merged output whatever the provider's metadata says. Evaluated
  on the tenant whose subscription \<^verbatim>\<open>abc\<close> answers the query, made with inherited
  assignments included, with an assignment made at the management group \<^verbatim>\<open>mg1\<close> and not
  flagged by the provider: the row written to \<^verbatim>\<open>role_assignments.csv\<close> has the queried
  scope in its \<^verbatim>\<open>scope\<close> column and \<^verbatim>\<open>False\<close> in its \<^verbatim>\<open>inherited\<close> column.
\<close>

theorem inherited_flag_not_recomputed:
  "ra_scope ra_from_mg \<noteq> ''/subscriptions/abc''
   \<and> ListRoleAssignments ''/subscriptions/abc'' True
       \<in> set (w_calls (snd (main (tenant [sub_abc] (\<lambda>_ _. Inr [ra_from_mg])) args_abc initial_world)))
   \<and> map_of (w_files (snd (main (tenant [sub_abc] (\<lambda>_ _. Inr [ra_from_mg])) args_abc initial_world)))
        ''out/role_assignments.csv''
      = Some (CsvFile
          [''scope'', ''scopeType'', ''subscriptionId'', ''resourceGroup'',
           ''roleDefinitionId'', ''roleDefinitionName'', ''assignmentId'',
           ''principalId'', ''principalType'', ''principalDisplayName'',
           ''principalUPNOrAppId'', ''inherited'', ''condition'',
           ''conditionVersion'', ''createdOn'']
          [[PyStr ''/subscriptions/abc'', PyStr ''Subscription'',
            PyStr ''abc'', PyStr [], PyStr ''rd1'', PyStr [], PyStr ''a1'',
            PyStr ''p1'', PyStr ''User'', PyStr ''p1'', PyStr ''p1'',
            PyBool False, PyStr [], PyStr [], PyStr []]])"
proof -
  have 1: "ra_scope ra_from_mg \<noteq> ''/subscriptions/abc''"
    by (simp add: ra_from_mg_def)
  have 2: "ListRoleAssignments ''/subscriptions/abc'' True
       \<in> set (w_calls (snd (main (tenant [sub_abc] (\<lambda>_ _. Inr [ra_from_mg])) args_abc initial_world)))"
    by code_simp
  have 3: "map_of (w_files (snd (main (tenant [sub_abc] (\<lambda>_ _. Inr [ra_from_mg])) args_abc initial_world)))
        ''out/role_assignments.csv''
      = Some (CsvFile
          [''scope'', ''scopeType'', ''subscriptionId'', ''resourceGroup'',
           ''roleDefinitionId'', ''roleDefinitionName'', ''assignmentId'',
           ''principalId'', ''principalType'', ''principalDisplayName'',
           ''principalUPNOrAppId'', ''inherited'', ''condition'',
           ''conditionVersion'', ''createdOn'']
          [[PyStr ''/subscriptions/abc'', PyStr ''Subscription'',
            PyStr ''abc'', PyStr [], PyStr ''rd1'', PyStr [], PyStr ''a1'',
            PyStr ''p1'', PyStr ''User'', PyStr ''p1'', PyStr ''p1'',
            PyBool False, PyStr [], PyStr [], PyStr []]])"
    by code_simp
  from 1 2 3 show ?thesis by (intro conjI)
qed

section \<open>A scope whose fetch fails\<close>

lemma has_key_getitem: "has_key d k \<Longrightarrow> \<exists>v. getitem d k = Inr v"
  by (auto simp: has_key_def getitem_def)

text \<open>The predicate carried through the loops: nothing was skipped and no error recorded.\<close>

lemma process_mg_no_raise:
  assumes "process_mg env args mg (st, w) = (fl, st', w')" and "has_key mg ''name''"
  shows "(\<forall>e. fl \<noteq> Raised e) \<and> skipped st' = skipped st \<and> error_list st' = error_list st"
proof -
  from has_key_getitem[OF assms(2)] obtain mg_id where k: "getitem mg ''name'' = Inr mg_id" ..
  define scope where "scope = ''/providers/Microsoft.Management/managementGroups/'' @ py_str mg_id"
  obtain role_defs w1 where rd: "get_role_definitions env scope w = (role_defs, w1)"
    by (cases "get_role_definitions env scope w")
  obtain rows w2 where ra: "get_role_assignments env scope True w1 = (rows, w2)"
    by (cases "get_role_assignments env scope True w1")
  have mi: "mark_inherited scope rows = Inr rows"
    using get_role_assignments_rows[OF ra] by (simp add: mark_inherited_same)
  from assms(1) k rd ra mi show ?thesis
    by (auto simp: process_mg_def scope_def Let_def split: if_splits)
qed

lemma mg_loop_no_skip:
  assumes "\<forall>mg\<in>set mgs. has_key mg ''name''"
  shows "skipped (fst (mg_loop env args mgs stw)) = skipped (fst stw)
         \<and> error_list (fst (mg_loop env args mgs stw)) = error_list (fst stw)"
  using assms
proof (induction mgs arbitrary: stw)
  case Nil
  then show ?case by simp
next
  case (Cons mg rest)
  obtain st w where stw: "stw = (st, w)" by (cases stw)
  obtain fl st' w' where p: "process_mg env args mg (st, w) = (fl, st', w')"
    by (cases "process_mg env args mg (st, w)")
  from Cons.prems have hk: "has_key mg ''name''" and rest: "\<forall>mg\<in>set rest. has_key mg ''name''"
    by simp_all
  note n = process_mg_no_raise[OF p hk]
  show ?case
  proof (cases fl)
    case Next
    with p stw n Cons.IH[OF rest, of "(st', w')"] show ?thesis by simp
  next
    case Break
    with p stw n show ?thesis by simp
  next
    case (Raised e)
    with n show ?thesis by simp
  qed
qed

lemma process_rg_no_raise:
  assumes "process_rg env args sub_id rg (st, w) = (fl, st', w')" and "has_key rg ''name''"
  shows "(\<forall>e. fl \<noteq> Raised e) \<and> skipped st' = skipped st \<and> error_list st' = error_list st"
proof -
  from has_key_getitem[OF assms(2)] obtain rg_name where k: "getitem rg ''name'' = Inr rg_name" ..
  define scope where
    "scope = ''/subscriptions/'' @ py_str sub_id @ ''/resourceGroups/'' @ py_str rg_name"
  obtain rows w1 where ra: "get_role_assignments env scope True w = (rows, w1)"
    by (cases "get_role_assignments env scope True w")
  have mi: "mark_inherited scope rows = Inr rows"
    using get_role_assignments_rows[OF ra] by (simp add: mark_inherited_same)
  from assms(1) k ra mi show ?thesis
    by (auto simp: process_rg_def scope_def Let_def split: if_splits)
qed

lemma rg_loop_no_skip:
  assumes "\<forall>rg\<in>set rgs. has_key rg ''name''"
  shows "skipped (fst (rg_loop env args sub_id rgs stw)) = skipped (fst stw)
         \<and> error_list (fst (rg_loop env args sub_id rgs stw)) = error_list (fst stw)"
  using assms
proof (induction rgs arbitrary: stw)
  case Nil
  then show ?case by simp
next
  case (Cons rg rest)
  obtain st w where stw: "stw = (st, w)" by (cases stw)
  obtain fl st' w' where p: "process_rg env args sub_id rg (st, w) = (fl, st', w')"
    by (cases "process_rg env args sub_id rg (st, w)")
  from Cons.prems have hk: "has_key rg ''name''" and rest: "\<forall>rg\<in>set rest. has_key rg ''name''"
    by simp_all
  note n = process_rg_no_raise[OF p hk]
  show ?case
  proof (cases fl)
    case Next
    with p stw n Cons.IH[OF rest, of "(st', w')"] show ?thesis by simp
  next
    case Break
    with p stw n show ?thesis by simp
  next
    case (Raised e)
    with n show ?thesis by simp
  qed
qed

lemma process_sub_no_raise:
  assumes "process_sub env args rgs_per_sub sub (st, w) = (fl, st', w')"
      and "has_key sub ''subscription_id''"
      and "\<forall>(k, rgs)\<in>set rgs_per_sub. \<forall>rg\<in>set rgs. has_key rg ''name''"
  shows "(\<forall>e. fl \<noteq> Raised e) \<and> skipped st' = skipped st \<and> error_list st' = error_list st"
proof -
  from has_key_getitem[OF assms(2)]
  obtain sub_id where k: "getitem sub ''subscription_id'' = Inr sub_id" ..
  define scope where "scope = ''/subscriptions/'' @ py_str sub_id"
  obtain role_defs w1 where rd: "get_role_definitions env scope w = (role_defs, w1)"
    by (cases "get_role_definitions env scope w")
  obtain rows w2 where ra: "get_role_assignments env scope True w1 = (rows, w2)"
    by (cases "get_role_assignments env scope True w1")
  have mi: "mark_inherited scope rows = Inr rows"
    using get_role_assignments_rows[OF ra] by (simp add: mark_inherited_same)
  define st2 where
    "st2 = st\<lparr>all_role_definitions := all_role_definitions st @ role_defs,
              all_role_assignments := all_role_assignments st @ rows,
              n_subscriptions := n_subscriptions st + 1\<rparr>"
  define stw3 where
    "stw3 = (if include_resources args
             then (case map_of rgs_per_sub sub_id of
                     Some rgs \<Rightarrow> rg_loop env args sub_id rgs (st2, w2)
                   | None \<Rightarrow> (st2, w2))
             else (st2, w2))"
  have wf: "\<And>rgs. map_of rgs_per_sub sub_id = Some rgs \<Longrightarrow> \<forall>rg\<in>set rgs. has_key rg ''name''"
    using assms(3) by (auto dest!: map_of_SomeD)
  have s3: "skipped (fst stw3) = skipped st \<and> error_list (fst stw3) = error_list st"
    using wf rg_loop_no_skip[of _ env args sub_id "(st2, w2)"]
    by (auto simp: stw3_def st2_def split: option.splits)
  from assms(1) k rd ra mi
  have r: "(st', w') = stw3"
       "fl = (if limit_reached (limit args) (n_subscriptions st') then Break else Next)"
    unfolding stw3_def st2_def
    by (auto simp: process_sub_def scope_def Let_def split: prod.splits option.splits)
  from r(1) have "st' = fst stw3" by (metis fst_conv)
  with s3 r(2) show ?thesis by simp
qed

lemma sub_loop_no_skip:
  assumes "\<forall>sub\<in>set subs. has_key sub ''subscription_id''"
      and "\<forall>(k, rgs)\<in>set rgs_per_sub. \<forall>rg\<in>set rgs. has_key rg ''name''"
  shows "skipped (fst (sub_loop env args rgs_per_sub subs stw)) = skipped (fst stw)
         \<and> error_list (fst (sub_loop env args rgs_per_sub subs stw)) = error_list (fst stw)"
  using assms(1)
proof (induction subs arbitrary: stw)
  case Nil
  then show ?case by simp
next
  case (Cons sub rest)
  obtain st w where stw: "stw = (st, w)" by (cases stw)
  obtain fl st' w' where p: "process_sub env args rgs_per_sub sub (st, w) = (fl, st', w')"
    by (cases "process_sub env args rgs_per_sub sub (st, w)")
  from Cons.prems have hk: "has_key sub ''subscription_id''"
    and rest: "\<forall>sub\<in>set rest. has_key sub ''subscription_id''"
    by simp_all
  note n = process_sub_no_raise[OF p hk assms(2)]
  show ?case
  proof (cases fl)
    case Next
    with p stw n Cons.IH[OF rest, of "(st', w')"] show ?thesis by simp
  next
    case Break
    with p stw n show ?thesis by simp
  next
    case (Raised e)
    with n show ?thesis by simp
  qed
qed

lemma aggregate_never_skips:
  assumes "\<forall>mg\<in>set mgs. has_key mg ''name''"
      and "\<forall>sub\<in>set subs. has_key sub ''subscription_id''"
      and "\<forall>(k, rgs)\<in>set rgs_per_sub. \<forall>rg\<in>set rgs. has_key rg ''name''"
  shows "skipped (fst (aggregate env args mgs subs rgs_per_sub w)) = []
         \<and> error_list (fst (aggregate env args mgs subs rgs_per_sub w)) = []"
  unfolding aggregate_def Let_def
  using sub_loop_no_skip[OF assms(2,3)] mg_loop_no_skip[OF assms(1)]
  by simp

lemma get_management_groups_keys:
  "get_management_groups env w = (mgs, w') \<Longrightarrow> \<forall>mg\<in>set mgs. has_key mg ''name''"
  by (auto simp: get_management_groups_def Let_def has_key_def split: sum.splits)

lemma get_subscriptions_keys:
  "get_subscriptions env ids w = (subs, w') \<Longrightarrow> \<forall>sub\<in>set subs. has_key sub ''subscription_id''"
  by (auto simp: get_subscriptions_def Let_def has_key_def subscription_row_def split: sum.splits)

lemma get_resource_groups_keys:
  "get_resource_groups env sub_id w = (rgs, w') \<Longrightarrow> \<forall>rg\<in>set rgs. has_key rg ''name''"
  by (auto simp: get_resource_groups_def Let_def has_key_def split: sum.splits)

lemma set_update_subset: "set (AList.update k v al) \<subseteq> insert (k, v) (set al)"
  by (induction al) auto

lemma enumerate_resource_groups_keys:
  assumes "enumerate_resource_groups env args subs acc w = Inr (r, w')"
      and "\<forall>(k, rgs)\<in>set acc. \<forall>rg\<in>set rgs. has_key rg ''name''"
  shows "\<forall>(k, rgs)\<in>set r. \<forall>rg\<in>set rgs. has_key rg ''name''"
  using assms
proof (induction subs arbitrary: acc w)
  case Nil
  then show ?case by simp
next
  case (Cons sub rest)
  from Cons.prems(1) obtain sub_id where k: "getitem sub ''subscription_id'' = Inr sub_id"
    by (cases "getitem sub ''subscription_id''") auto
  obtain rgs w1 where g: "get_resource_groups env sub_id w = (rgs, w1)"
    by (cases "get_resource_groups env sub_id w")
  have acc1: "\<forall>(k, rgs)\<in>set (AList.update sub_id rgs acc). \<forall>rg\<in>set rgs. has_key rg ''name''"
    using Cons.prems(2) get_resource_groups_keys[OF g] set_update_subset[of sub_id rgs acc]
    by fastforce
  show ?case
  proof (cases "limit_reached (limit args) (length (AList.update sub_id rgs acc))")
    case True
    with Cons.prems(1) k g acc1 show ?thesis by simp
  next
    case False
    with Cons.prems(1) k g
    have "enumerate_resource_groups env args rest (AList.update sub_id rgs acc) w1 = Inr (r, w')"
      by simp
    from Cons.IH[OF this acc1] show ?thesis .
  qed
qed

lemma enumerate_resource_groups_keys0:
  assumes "enumerate_resource_groups env args subs [] w = Inr (r, w')"
      and "(k, rgs) \<in> set r" and "rg \<in> set rgs"
  shows "has_key rg ''name''"
  using enumerate_resource_groups_keys[OF assms(1)] assms(2,3) by fastforce

lemma discovery_keys:
  assumes "discovery env args0 w0 = Inr (args, ct, mgs, subs, rgs, w)"
  shows "(\<forall>mg\<in>set mgs. has_key mg ''name'')
         \<and> (\<forall>sub\<in>set subs. has_key sub ''subscription_id'')
         \<and> (\<forall>(k, rgs)\<in>set rgs. \<forall>rg\<in>set rgs. has_key rg ''name'')"
  using assms
  unfolding discovery_def
  by (auto simp: Let_def
        split: option.splits if_splits sum.splits prod.splits
        dest!: get_management_groups_keys get_subscriptions_keys
        dest: enumerate_resource_groups_keys0)

text \<open>Whatever the provider answers, no run records a skipped scope or an error.\<close>

lemma no_scope_is_ever_skipped:
  assumes "discovery env args0 w0 = Inr (args, ct, mgs, subs, rgs, w)"
  shows "skipped (fst (aggregate env args mgs subs rgs w1)) = []
         \<and> error_list (fst (aggregate env args mgs subs rgs w1)) = []"
  using discovery_keys[OF assms] aggregate_never_skips by blast

text \<open>
  C7 asks that a scope whose role-definition or role-assignment fetch fails is logged,
  entered in the skipped-scopes list with its tag, and does not stop the aggregation.
  Evaluated on the tenant in which both fetches of the subscription \<^verbatim>\<open>abc\<close> fail: both
  failures are logged as warnings and the run goes on to its end, but the summary counts
  the subscription as processed, its skipped-scopes list is empty, and the exit status
  is 0.
\<close>

theorem failed_fetch_is_not_recorded_as_skipped:
  "main tenant_denied args_abc initial_world =
    (Exit 0,
     \<lparr>w_calls =
        [TryCredential ''DefaultAzureCredential'', ListSubscriptions,
         ListRoleDefinitions ''/subscriptions/abc'',
         ListRoleAssignments ''/subscriptions/abc'' True],
      w_log =
        [(WARNING, ''Failed to list role definitions at /subscriptions/abc: '',
          Some (ApiError ''denied'')),
         (WARNING, ''Failed to list role assignments at /subscriptions/abc: '',
          Some (ApiError ''denied'')),
         (WARNING, ''No data to write to out/role_definitions.csv'', None),
         (WARNING, ''No data to write to out/role_assignments.csv'', None),
         (WARNING, ''No data to write to out/role_assignments.xlsx'', None),
         (WARNING, ''No data to write to out/role_assignments.md'', None)],
      w_files =
        [(''out/index.json'',
          IndexJson
           [(''role_definitions_csv'', Some ''out/role_definitions.csv''),
            (''role_assignments_csv'', Some ''out/role_assignments.csv''),
            (''role_assignments_xlsx'', Some ''out/role_assignments.xlsx''),
            (''role_assignments_md'', Some ''out/role_assignments.md'')]
           (0, 0) []),
         (''logs/summary.json'',
          SummaryJson
           \<lparr>scopes_processed = (0, 1, 0), scopes_skipped = [],
              roles_count = 0, assignments_count = 0, warnings = [],
              errors = [], success = True,
              credential_type = ''DefaultAzureCredential''\<rparr>)],
      w_dirs = [''out''], principal_cache = []\<rparr>)"
  by code_simp

end
